theory Spec2Isabelle
  imports Main "HOL-Library.Sublist" "HOL-Library.AList" "HOL-Library.Word"
begin

section \<open>JavaScript values\<close>

text \<open>
  The controller reads request bodies and upstream response bodies as untyped
  JavaScript values. A number is an integer that a Number holds exactly: a
  54-bit two's complement value, from \<open>-2^53\<close> to \<open>2^53 - 1\<close>, read with
  \<open>sint\<close>. On these, truthiness and printing are those of the language;
  fractions and larger magnitudes are not values of the type (the controller
  does no arithmetic on what it reads). An object is the list of its own
  properties, read with \<open>map_of\<close>.
\<close>

datatype jsval =
    JUndefined
  | JNull
  | JBool bool
  | JNum "54 word"
  | JStr string
  | JArr "jsval list"
  | JObj "(string \<times> jsval) list"

text \<open>ToBoolean: what \<open>if (v)\<close>, \<open>!v\<close> and \<open>v || w\<close> test.\<close>

fun truthy :: "jsval \<Rightarrow> bool" where
  "truthy JUndefined = False"
| "truthy JNull = False"
| "truthy (JBool b) = b"
| "truthy (JNum n) = (n \<noteq> 0)"
| "truthy (JStr s) = (s \<noteq> [])"
| "truthy (JArr xs) = True"
| "truthy (JObj kvs) = True"

text \<open>\<open>a || b\<close>.\<close>

definition js_or :: "jsval \<Rightarrow> jsval \<Rightarrow> jsval" where
  "js_or a b = (if truthy a then a else b)"

text \<open>
  \<open>v?.k\<close> for the property names the controller reads (\<open>message\<close>,
  \<open>error\<close>, \<open>success\<close>, \<open>data\<close>, \<open>answer\<close>, \<open>conversation_history\<close>):
  none of them is a property of a string, number, boolean or array, and on
  \<open>null\<close>/\<open>undefined\<close> the optional chain gives \<open>undefined\<close>. The source
  uses the plain \<open>v.k\<close> only behind a guard that \<open>v\<close> is truthy, where both
  forms agree.
\<close>

definition js_get :: "jsval \<Rightarrow> string \<Rightarrow> jsval" where
  "js_get v k =
     (case v of
        JObj kvs \<Rightarrow> (case map_of kvs k of Some x \<Rightarrow> x | None \<Rightarrow> JUndefined)
      | _ \<Rightarrow> JUndefined)"

text \<open>\<open>Array.prototype.join\<close> on strings.\<close>

fun join :: "string \<Rightarrow> string list \<Rightarrow> string" where
  "join sep [] = []"
| "join sep [x] = x"
| "join sep (x # y # ys) = x @ sep @ join sep (y # ys)"

text \<open>Decimal printing of numbers.\<close>

definition digit :: "nat \<Rightarrow> char" where
  "digit d = char_of (48 + d)"

fun string_of_nat :: "nat \<Rightarrow> string" where
  "string_of_nat n =
     (if n < 10 then [digit n] else string_of_nat (n div 10) @ [digit (n mod 10)])"

definition string_of_int :: "int \<Rightarrow> string" where
  "string_of_int i = (if i < 0 then CHR ''-'' # string_of_nat (nat (- i)) else string_of_nat (nat i))"

text \<open>
  ToString, as \<open>new Error(v)\<close>, \<open>'...' + v\<close> and \<open>URLSearchParams.append\<close>
  apply it.
\<close>

fun js_toString :: "jsval \<Rightarrow> string" where
  "js_toString JUndefined = ''undefined''"
| "js_toString JNull = ''null''"
| "js_toString (JBool b) = (if b then ''true'' else ''false'')"
| "js_toString (JNum n) = string_of_int (sint n)"
| "js_toString (JStr s) = s"
| "js_toString (JArr xs) =
     join '','' (map (\<lambda>x. if x = JUndefined \<or> x = JNull then [] else js_toString x) xs)"
| "js_toString (JObj kvs) = ''[object Object]''"

text \<open>\<open>String.prototype.includes\<close> and \<open>String.prototype.replace\<close> with a
  string pattern (the first occurrence only).\<close>

fun js_includes :: "string \<Rightarrow> string \<Rightarrow> bool" where
  "js_includes [] sub = (sub = [])"
| "js_includes (c # cs) sub = (prefix sub (c # cs) \<or> js_includes cs sub)"

fun js_replace :: "string \<Rightarrow> string \<Rightarrow> string \<Rightarrow> string" where
  "js_replace [] pat rep = (if pat = [] then rep else [])"
| "js_replace (c # cs) pat rep =
     (if prefix pat (c # cs) then rep @ drop (length pat) (c # cs)
      else c # js_replace cs pat rep)"

section \<open>Upstream responses and client errors\<close>

type_synonym user_id = string

text \<open>A response header is a string, or an array of strings (\<open>set-cookie\<close>).\<close>

datatype hval = HStr string | HArr "string list"

record http_response =
  resp_status :: int
  resp_headers :: "(string \<times> hval) list"
  resp_data :: jsval

text \<open>The error object the handlers inspect: \<open>error.response\<close>,
  \<open>error.request\<close>, \<open>error.message\<close>, \<open>error.code\<close>.\<close>

record js_error =
  err_response :: "http_response option"
  err_request :: bool
  err_message :: string
  err_code :: "string option"

datatype 'a promise = Fulfilled 'a | Rejected js_error

text \<open>What the network does with one exchange.\<close>

datatype net_result =
    NoResponse string "string option"
  | HttpResponse http_response

datatype req_body =
    NoBody
  | Multipart string string string string
  | UrlEncoded "(string \<times> string) list"

record request_config =
  req_baseURL :: string
  req_url :: string
  req_headers :: "(string \<times> string) list"
  req_withCredentials :: bool
  req_timeout :: nat
  req_body :: req_body

section \<open>Upstream address\<close>

record environment =
  env_AI_SERVER_URL :: "string option"
  env_NODEMAILER_USER :: "string option"
  env_NODEMAILER_PASS :: "string option"
  env_NODE_ENV :: "string option"

text \<open>\<open>process.env.X || d\<close>: an unset or empty variable is falsy.\<close>

definition env_or :: "string option \<Rightarrow> string \<Rightarrow> string" where
  "env_or v d = (case v of None \<Rightarrow> d | Some s \<Rightarrow> if s = [] then d else s)"

definition AI_SERVER_URL :: "environment \<Rightarrow> string" where
  "AI_SERVER_URL env =
     (let url = env_or (env_AI_SERVER_URL env) ''http://127.0.0.1:5000'' in
      if js_includes url ''localhost:5000''
      then js_replace url ''localhost'' ''127.0.0.1''
      else url)"

text \<open>
  The same top-level statements with the dynamic checks of the language
  written out. \<open>process.env.X\<close> is a string or \<open>undefined\<close>, and a method
  call on a value that has no such method raises a \<open>TypeError\<close>. These
  statements run when the module is loaded, outside any \<open>try\<close>: an error
  raised here is caught by nothing in the module.
\<close>

definition js_env :: "string option \<Rightarrow> jsval" where
  "js_env v = (case v of None \<Rightarrow> JUndefined | Some s \<Rightarrow> JStr s)"

definition call_includes :: "jsval \<Rightarrow> string \<Rightarrow> js_error + bool" where
  "call_includes v sub =
     (case v of
        JStr s \<Rightarrow> Inr (js_includes s sub)
      | JArr xs \<Rightarrow> Inr (JStr sub \<in> set xs)
      | _ \<Rightarrow> Inl \<lparr>err_response = None, err_request = False,
                   err_message = ''TypeError: AI_SERVER_URL.includes is not a function'',
                   err_code = None\<rparr>)"

definition call_replace :: "jsval \<Rightarrow> string \<Rightarrow> string \<Rightarrow> js_error + jsval" where
  "call_replace v pat rep =
     (case v of
        JStr s \<Rightarrow> Inr (JStr (js_replace s pat rep))
      | _ \<Rightarrow> Inl \<lparr>err_response = None, err_request = False,
                   err_message = ''TypeError: AI_SERVER_URL.replace is not a function'',
                   err_code = None\<rparr>)"

definition pdfController_load :: "environment \<Rightarrow> js_error + jsval" where
  "pdfController_load env =
     (let url = js_or (js_env (env_AI_SERVER_URL env)) (JStr ''http://127.0.0.1:5000'') in
      case call_includes url ''localhost:5000'' of
        Inl err \<Rightarrow> Inl err
      | Inr found \<Rightarrow>
          if found then call_replace url ''localhost'' ''127.0.0.1'' else Inr url)"

section \<open>Session store and the client's two hooks\<close>

type_synonym cookie_store = "user_id \<rightharpoonup> string"

definition header_truthy :: "hval option \<Rightarrow> bool" where
  "header_truthy h =
     (case h of None \<Rightarrow> False | Some (HStr s) \<Rightarrow> s \<noteq> [] | Some (HArr xs) \<Rightarrow> True)"

definition cookieString :: "hval \<Rightarrow> string" where
  "cookieString setCookieHeader =
     (case setCookieHeader of HArr xs \<Rightarrow> join ''; '' xs | HStr s \<Rightarrow> s)"

text \<open>The success callback of the response interceptor.\<close>

definition on_response :: "user_id \<Rightarrow> http_response \<Rightarrow> cookie_store \<Rightarrow> cookie_store" where
  "on_response userId response store =
     (case map_of (resp_headers response) ''set-cookie'' of
        None \<Rightarrow> store
      | Some setCookieHeader \<Rightarrow>
          if header_truthy (Some setCookieHeader)
          then store(userId \<mapsto> cookieString setCookieHeader)
          else store)"

text \<open>
  The response interceptor: the success callback stores the cookie and passes
  the response on; the error callback logs and rejects with the same error.
\<close>

fun response_interceptor ::
  "user_id \<Rightarrow> http_response promise \<Rightarrow> cookie_store \<Rightarrow> http_response promise \<times> cookie_store" where
  "response_interceptor userId (Fulfilled response) store =
     (Fulfilled response, on_response userId response store)"
| "response_interceptor userId (Rejected error) store =
     (Rejected error, store)"

text \<open>The request interceptor.\<close>

definition request_interceptor :: "user_id \<Rightarrow> cookie_store \<Rightarrow> request_config \<Rightarrow> request_config" where
  "request_interceptor userId store config =
     (case store userId of
        None \<Rightarrow> config
      | Some cookies \<Rightarrow>
          if cookies \<noteq> []
          then config\<lparr>req_headers := AList.update ''Cookie'' cookies (req_headers config)\<rparr>
          else config)"

text \<open>
  Handlers of different calls interleave only where they await; each hook runs
  to completion. An interleaving of calls is therefore a sequence of hook
  runs, each by the client of some user.
\<close>

datatype hook_event =
    RequestHook user_id request_config
  | ResponseHook user_id "http_response promise"

fun ev_user :: "hook_event \<Rightarrow> user_id" where
  "ev_user (RequestHook u c) = u"
| "ev_user (ResponseHook u r) = u"

fun hook_step :: "cookie_store \<Rightarrow> hook_event \<Rightarrow> cookie_store" where
  "hook_step store (RequestHook u c) = store"
| "hook_step store (ResponseHook u r) = snd (response_interceptor u r store)"

definition run_hooks :: "cookie_store \<Rightarrow> hook_event list \<Rightarrow> cookie_store" where
  "run_hooks store evs = foldl hook_step store evs"

section \<open>The controller's state and its surroundings\<close>

record pdf_doc =
  pdf_id :: string
  pdf_filename :: string
  pdf_originalname :: string
  pdf_path :: string
  pdf_user :: user_id

record query_doc =
  qh_question :: jsval
  qh_answer :: jsval
  qh_user :: user_id
  qh_pdf :: jsval

text \<open>
  The module-level cookie map, the two collections of the record store, and a
  trace of what the controller did towards the upstream: every client it
  built and every request it transmitted (after the request interceptor).
  Console output is not part of the state.
\<close>

record app_state =
  userCookies :: cookie_store
  pdfs :: "pdf_doc list"
  queryHistory :: "query_doc list"
  clients :: "user_id list"
  sent :: "(user_id \<times> request_config) list"

text \<open>
  What one call meets outside the controller: the fate of its upstream
  exchange, whether the record store raises on a lookup or on a save, the
  identifier the store gives a new record, and the multipart boundary.
\<close>

record world =
  net :: net_result
  find_error :: "string option"
  save_error :: "string option"
  new_id :: string
  boundary :: string

record reply =
  rstatus :: int
  rbody :: jsval

definition respond :: "int \<Rightarrow> (string \<times> jsval) list \<Rightarrow> reply" where
  "respond code props = \<lparr>rstatus = code, rbody = JObj props\<rparr>"

text \<open>An error raised inside the handler (\<open>new Error(msg)\<close>, or one raised
  by the record store): it has neither \<open>response\<close> nor \<open>request\<close>.\<close>

definition thrown :: "string \<Rightarrow> js_error" where
  "thrown msg = \<lparr>err_response = None, err_request = False, err_message = msg, err_code = None\<rparr>"

section \<open>The client\<close>

text \<open>The configuration of the instance \<open>axios.create\<close> builds in
  \<open>getAiAxiosForUser\<close>.\<close>

definition aiAxios_defaults :: "environment \<Rightarrow> request_config" where
  "aiAxios_defaults env =
     \<lparr>req_baseURL = AI_SERVER_URL env, req_url = [],
      req_headers = [(''Accept'', ''application/json'')],
      req_withCredentials = True,
      req_timeout = 60000, req_body = NoBody\<rparr>"

text \<open>
  \<open>getAiAxiosForUser\<close> builds a fresh client on every call. The client is
  that configuration with the two interceptors closed over \<open>userId\<close>, so
  it is determined by \<open>userId\<close>; the state records that it was built.
\<close>

definition getAiAxiosForUser :: "user_id \<Rightarrow> app_state \<Rightarrow> app_state" where
  "getAiAxiosForUser userId st = st\<lparr>clients := clients st @ [userId]\<rparr>"

text \<open>
  How the client library settles an exchange (its default
  \<open>validateStatus\<close>): a response with a status from 200 to 299 fulfils, any
  other response rejects with an error carrying the response, no response at
  all rejects with an error carrying only the request. The handlers never read
  \<open>error.code\<close> of an error that carries a response; it is left empty.
\<close>

definition settle :: "net_result \<Rightarrow> http_response promise" where
  "settle r =
     (case r of
        NoResponse msg code \<Rightarrow>
          Rejected \<lparr>err_response = None, err_request = True, err_message = msg, err_code = code\<rparr>
      | HttpResponse response \<Rightarrow>
          if 200 \<le> resp_status response \<and> resp_status response < 300
          then Fulfilled response
          else Rejected \<lparr>err_response = Some response, err_request = True,
                 err_message = ''Request failed with status code '' @ string_of_int (resp_status response),
                 err_code = None\<rparr>)"

text \<open>
  One \<open>aiAxios.post\<close> by the client of \<open>userId\<close>: request interceptor,
  transmission, settling, response interceptor. The per-call limits
  \<open>maxContentLength\<close> and \<open>maxBodyLength\<close> of \<open>uploadPDF\<close> (both
  unlimited) are not part of the request record.
\<close>

definition aiAxios_post ::
  "user_id \<Rightarrow> request_config \<Rightarrow> world \<Rightarrow> app_state \<Rightarrow> http_response promise \<times> app_state" where
  "aiAxios_post userId config w st =
     (let config' = request_interceptor userId (userCookies st) config;
          st1 = st\<lparr>sent := sent st @ [(userId, config')]\<rparr>;
          r = response_interceptor userId (settle (net w)) (userCookies st1)
      in (fst r, st1\<lparr>userCookies := snd r\<rparr>))"


section \<open>uploadPDF\<close>

record upload_file =
  file_path :: string
  file_originalname :: string
  file_filename :: string

record upload_req =
  ur_file :: "upload_file option"
  ur_user :: user_id

definition header_or :: "hval option \<Rightarrow> hval \<Rightarrow> hval" where
  "header_or h d = (case h of None \<Rightarrow> d | Some v \<Rightarrow> if header_truthy (Some v) then v else d)"

text \<open>\<open>includes\<close> on a header value: substring on a string, membership on an array.\<close>

definition header_includes :: "hval \<Rightarrow> string \<Rightarrow> bool" where
  "header_includes h sub = (case h of HStr s \<Rightarrow> js_includes s sub | HArr xs \<Rightarrow> sub \<in> set xs)"

definition port_conflict_body :: "(string \<times> jsval) list" where
  "port_conflict_body =
     [(''error'', JStr ''Port 5000 conflict detected: macOS AirPlay Receiver is intercepting requests.''),
      (''details'', JStr ''On macOS, localhost:5000 is used by AirPlay Receiver. Please use 127.0.0.1:5000 instead, or disable AirPlay Receiver in System Settings > General > AirDrop & Handoff.''),
      (''solution'', JStr ''Set AI_SERVER_URL=http://127.0.0.1:5000 in your .env file or environment variables.'')]"

text \<open>The \<open>catch\<close> block of \<open>uploadPDF\<close>.\<close>

definition uploadPDF_catch :: "environment \<Rightarrow> js_error \<Rightarrow> reply" where
  "uploadPDF_catch env error =
     (case err_response error of
        Some response \<Rightarrow>
          (let status = resp_status response; errorData = resp_data response in
           if status = 403 then
             (let serverHeader =
                    header_or (map_of (resp_headers response) ''server'')
                      (header_or (map_of (resp_headers response) ''Server'') (HStr []));
                  isAirPlay = (header_includes serverHeader ''AirTunes'' \<or> header_includes serverHeader ''AirPlay'')
              in if isAirPlay then respond 503 port_conflict_body
                 else respond 503
                   [(''error'', JStr ''AI server access denied. Please ensure the AI server is running and properly configured.''),
                    (''details'', js_or (js_get errorData ''message'') (JStr ''Forbidden - Check AI server configuration''))])
           else if status = 400 then
             respond 400
               [(''error'', js_or (js_get errorData ''message'') (js_or errorData (JStr ''Invalid request to AI server'')))]
           else if status = 500 then
             respond 502
               [(''error'', JStr ''AI server internal error. Please try again later.''),
                (''details'', js_or (js_get errorData ''message'') (JStr ''Internal server error on AI server''))]
           else
             (let fallbackMessage =
                    (case errorData of
                       JStr s \<Rightarrow> JStr s
                     | _ \<Rightarrow> js_or (js_get errorData ''message'')
                              (js_or (js_get errorData ''error'') (JStr ''Error from AI server'')))
              in respond (if status \<ge> 500 then 502 else status) [(''error'', fallbackMessage)]))
      | None \<Rightarrow>
          if err_request error then
            respond 503
              [(''error'', JStr (''Unable to connect to AI server. Please ensure the AI server is running on '' @ AI_SERVER_URL env)),
               (''details'', JStr (if err_code error = Some ''ECONNREFUSED''
                                  then ''Connection refused - AI server may not be running''
                                  else err_message error))]
          else
            respond 500 [(''error'', JStr (''Error uploading PDF: '' @ err_message error))])"

definition uploadPDF :: "environment \<Rightarrow> world \<Rightarrow> upload_req \<Rightarrow> app_state \<Rightarrow> reply \<times> app_state" where
  "uploadPDF env w req st =
     (case ur_file req of
        None \<Rightarrow> (respond 400 [(''error'', JStr ''No PDF file uploaded'')], st)
      | Some file \<Rightarrow>
          (let userId = ur_user req;
               st1 = getAiAxiosForUser userId st;
               config = (aiAxios_defaults env)
                 \<lparr>req_url := ''/upload'',
                  req_headers := AList.update ''content-type''
                     (''multipart/form-data; boundary='' @ boundary w) (req_headers (aiAxios_defaults env)),
                  req_timeout := 120000,
                  req_body := Multipart ''pdf_files'' (file_path file) (file_originalname file) ''application/pdf''\<rparr>;
               r = aiAxios_post userId config w st1;
               st2 = snd r
           in case fst r of
                Rejected error \<Rightarrow> (uploadPDF_catch env error, st2)
              | Fulfilled response \<Rightarrow>
                  if \<not> truthy (resp_data response) \<or> \<not> truthy (js_get (resp_data response) ''success'')
                  then (uploadPDF_catch env
                          (thrown (js_toString (js_or (js_get (resp_data response) ''message'')
                                     (JStr ''AI server returned unsuccessful response'')))), st2)
                  else
                    (case save_error w of
                       Some msg \<Rightarrow> (uploadPDF_catch env (thrown msg), st2)
                     | None \<Rightarrow>
                         (let savedPdf = \<lparr>pdf_id = new_id w, pdf_filename = file_filename file,
                                          pdf_originalname = file_originalname file,
                                          pdf_path = file_path file, pdf_user = userId\<rparr>
                          in (respond 200
                                [(''message'', JStr ''PDF uploaded successfully''),
                                 (''data'', JObj [(''_id'', JStr (pdf_id savedPdf)),
                                                 (''filename'', JStr (pdf_filename savedPdf)),
                                                 (''originalname'', JStr (pdf_originalname savedPdf))]),
                                 (''aiResponse'', resp_data response)],
                              st2\<lparr>pdfs := pdfs st2 @ [savedPdf]\<rparr>)))))"

section \<open>queryPDF\<close>

record query_req =
  qr_question :: jsval
  qr_pdfId :: jsval
  qr_user :: user_id

text \<open>\<open>PDF.findOne({ _id, user })\<close>: the first record with that identifier
  and that owner.\<close>

definition PDF_findOne :: "pdf_doc list \<Rightarrow> jsval \<Rightarrow> user_id \<Rightarrow> pdf_doc option" where
  "PDF_findOne ps pdfId user = find (\<lambda>p. JStr (pdf_id p) = pdfId \<and> pdf_user p = user) ps"

text \<open>The \<open>catch\<close> block shared in shape by \<open>queryPDF\<close> and
  \<open>clearVectorData\<close>; they differ in the last message only.\<close>

definition echo_catch :: "string \<Rightarrow> js_error \<Rightarrow> reply" where
  "echo_catch prefix_msg error =
     (case err_response error of
        Some response \<Rightarrow>
          respond (if resp_status response \<noteq> 0 then resp_status response else 500)
            [(''error'', js_or (js_get (resp_data response) ''message'')
                           (js_or (js_get (resp_data response) ''error'') (JStr ''Error from AI server'')))]
      | None \<Rightarrow>
          if err_request error then
            respond 503 [(''error'', JStr ''Unable to connect to AI server. Please ensure the AI server is running.'')]
          else
            respond 500 [(''error'', JStr (prefix_msg @ err_message error))])"

definition queryPDF_catch :: "js_error \<Rightarrow> reply" where
  "queryPDF_catch error = echo_catch ''Error processing query: '' error"

definition queryPDF :: "environment \<Rightarrow> world \<Rightarrow> query_req \<Rightarrow> app_state \<Rightarrow> reply \<times> app_state" where
  "queryPDF env w req st =
     (let question = qr_question req; pdfId = qr_pdfId req in
      if \<not> truthy question then (respond 400 [(''error'', JStr ''Question is required'')], st)
      else if \<not> truthy pdfId then (respond 400 [(''error'', JStr ''PDF ID is required'')], st)
      else
        (case find_error w of
           Some msg \<Rightarrow> (queryPDF_catch (thrown msg), st)
         | None \<Rightarrow>
             (case PDF_findOne (pdfs st) pdfId (qr_user req) of
                None \<Rightarrow> (respond 404 [(''error'', JStr ''PDF not found or not authorized'')], st)
              | Some pdf \<Rightarrow>
                  (let userId = qr_user req;
                       st1 = getAiAxiosForUser userId st;
                       config = (aiAxios_defaults env)
                         \<lparr>req_url := ''/query'',
                          req_headers := AList.update ''Content-Type'' ''application/x-www-form-urlencoded''
                             (req_headers (aiAxios_defaults env)),
                          req_body := UrlEncoded [(''query'', js_toString question)]\<rparr>;
                       r = aiAxios_post userId config w st1;
                       st2 = snd r
                   in case fst r of
                        Rejected error \<Rightarrow> (queryPDF_catch error, st2)
                      | Fulfilled response \<Rightarrow>
                          (let d = resp_data response in
                           if \<not> truthy d \<or> \<not> truthy (js_get d ''success'') \<or> \<not> truthy (js_get d ''data'')
                           then (respond 500
                                   [(''error'', js_or (js_get d ''message'') (JStr ''Invalid response from AI server''))],
                                 st2)
                           else
                             (case save_error w of
                                Some msg \<Rightarrow> (queryPDF_catch (thrown msg), st2)
                              | None \<Rightarrow>
                                  (respond 200
                                     [(''answer'', js_get (js_get d ''data'') ''answer''),
                                      (''conversation_history'', js_get (js_get d ''data'') ''conversation_history'')],
                                   st2\<lparr>queryHistory := queryHistory st2 @
                                          [\<lparr>qh_question = question,
                                            qh_answer = js_get (js_get d ''data'') ''answer'',
                                            qh_user = userId, qh_pdf = pdfId\<rparr>]\<rparr>)))))))"

section \<open>clearVectorData\<close>

definition clearVectorData_catch :: "js_error \<Rightarrow> reply" where
  "clearVectorData_catch error = echo_catch ''Error clearing vector data: '' error"

definition clearVectorData :: "environment \<Rightarrow> world \<Rightarrow> user_id \<Rightarrow> app_state \<Rightarrow> reply \<times> app_state" where
  "clearVectorData env w user st =
     (let userId = user;
          st1 = getAiAxiosForUser userId st;
          config = (aiAxios_defaults env)\<lparr>req_url := ''/clear-vector-data''\<rparr>;
          r = aiAxios_post userId config w st1;
          st2 = snd r
      in case fst r of
           Rejected error \<Rightarrow> (clearVectorData_catch error, st2)
         | Fulfilled response \<Rightarrow>
             (respond 200
                [(''message'', JStr ''Vector data cleared successfully''),
                 (''data'', resp_data response)],
              st2))"

section \<open>Mail: mailSender and the one-time-code hook\<close>

text \<open>An error of the mail library or a plain \<open>Error\<close>: \<open>message\<close>,
  \<open>code\<close>, \<open>responseCode\<close>.\<close>

record mail_error =
  me_message :: string
  me_code :: "string option"
  me_responseCode :: "int option"

definition plain_error :: "string \<Rightarrow> mail_error" where
  "plain_error msg = \<lparr>me_message = msg, me_code = None, me_responseCode = None\<rparr>"

record mail_message =
  mail_from :: string
  mail_to :: string
  mail_subject :: string
  mail_html :: string
  mail_text :: "string option"

text \<open>What the code asks of the mail library, in order.\<close>

datatype smtp_event =
    CreateTransport string string
  | Verify
  | SendMail mail_message
  | Close

text \<open>What the mail server does: whether \<open>verify\<close> raises, and whether
  \<open>sendMail\<close> raises or returns a message identifier.\<close>

record smtp_world =
  verify_result :: "mail_error option"
  send_result :: "mail_error + string"

text \<open>\<open>!process.env.X\<close>.\<close>

definition env_falsy :: "string option \<Rightarrow> bool" where
  "env_falsy v = (case v of None \<Rightarrow> True | Some s \<Rightarrow> s = [])"

text \<open>An environment variable inside a template string.\<close>

definition env_text :: "string option \<Rightarrow> string" where
  "env_text v = (case v of None \<Rightarrow> ''undefined'' | Some s \<Rightarrow> s)"

definition createTransporter :: "environment \<Rightarrow> mail_error + smtp_event" where
  "createTransporter env =
     (if env_falsy (env_NODEMAILER_USER env) \<or> env_falsy (env_NODEMAILER_PASS env)
      then Inl (plain_error ''Email configuration missing: NODEMAILER_USER and NODEMAILER_PASS must be set'')
      else Inr (CreateTransport (env_text (env_NODEMAILER_USER env)) (env_text (env_NODEMAILER_PASS env))))"

text \<open>The \<open>try\<close> block of \<open>mailSender\<close>: its outcome, what it asked of the
  mail library, and whether \<open>transporter\<close> was assigned.\<close>

definition mailSender_try ::
  "environment \<Rightarrow> smtp_world \<Rightarrow> jsval \<Rightarrow> string \<Rightarrow> string \<Rightarrow> (mail_error + string) \<times> smtp_event list \<times> bool" where
  \<open>mailSender_try env smtp email subject body =
     (if \<not> truthy email \<or> (case email of JStr e \<Rightarrow> \<not> js_includes e ''@'' | _ \<Rightarrow> True)
      then (Inl (plain_error ''Invalid email address''), [], False)
      else
        (case createTransporter env of
           Inl err \<Rightarrow> (Inl err, [], False)
         | Inr created \<Rightarrow>
             (case verify_result smtp of
                Some err \<Rightarrow> (Inl err, [created, Verify], True)
              | None \<Rightarrow>
                  (let msg = \<lparr>mail_from = ''"PDF Q&A" <'' @ env_text (env_NODEMAILER_USER env) @ ''>'',
                              mail_to = js_toString email, mail_subject = subject,
                              mail_html = body, mail_text = None\<rparr>
                   in case send_result smtp of
                        Inl err \<Rightarrow> (Inl err, [created, Verify, SendMail msg], True)
                      | Inr messageId \<Rightarrow> (Inr messageId, [created, Verify, SendMail msg], True)))))\<close>

text \<open>The \<open>catch\<close> block of \<open>mailSender\<close>: every branch raises a new error.\<close>

definition mailSender_catch :: "mail_error \<Rightarrow> mail_error" where
  "mailSender_catch error =
     (if me_code error = Some ''ENOTFOUND'' \<or> me_code error = Some ''EDNS'' then
        plain_error ''Network error: Unable to connect to email server. Please check your internet connection.''
      else if me_code error = Some ''ETIMEDOUT'' \<or> me_code error = Some ''ECONNREFUSED'' then
        plain_error ''Connection error: Unable to reach email server. Please try again later.''
      else if me_responseCode error = Some 535 then
        plain_error ''Email authentication failed. Please check email configuration.''
      else
        plain_error (''Failed to send email: '' @ me_message error))"

text \<open>\<open>mailSender\<close>: \<open>Inl\<close> is the error it raises, \<open>Inr\<close> the value it
  returns; \<open>finally\<close> closes the transporter when there is one.\<close>

definition mailSender ::
  "environment \<Rightarrow> smtp_world \<Rightarrow> jsval \<Rightarrow> string \<Rightarrow> string \<Rightarrow> (mail_error + string) \<times> smtp_event list" where
  "mailSender env smtp email subject body =
     (case mailSender_try env smtp email subject body of
        (outcome, events, transporter) \<Rightarrow>
          ((case outcome of Inl error \<Rightarrow> Inl (mailSender_catch error) | Inr info \<Rightarrow> Inr info),
           events @ (if transporter then [Close] else [])))"

record otp_doc =
  otp_email :: string
  otp_otp :: string

definition otp_html :: "string \<Rightarrow> string" where
  \<open>otp_html otp =
     (''\<newline>''
        @ ''          <div style="font-family: Arial, sans-serif; max-width: 600px; margin: 0 auto;">\<newline>''
        @ ''            <h2 style="color: #333;">Your OTP Code</h2>\<newline>''
        @ ''            <p>Your One-Time Password (OTP) for AskMyFile is:</p>\<newline>''
        @ ''            <div style="background-color: #f4f4f4; padding: 20px; text-align: center; margin: 20px 0;">\<newline>''
        @ ''              <h1 style="color: #007bff; font-size: 32px; margin: 0; letter-spacing: 5px;">''
        @ otp
        @ ''</h1>\<newline>''
        @ ''            </div>\<newline>''
        @ ''            <p>This OTP is valid for <strong>5 minutes</strong>.</p>\<newline>''
        @ ''            <p style="color: #666; font-size: 12px;">If you didn't request this OTP, please ignore this email.</p>\<newline>''
        @ ''          </div>\<newline>''
        @ ''        '')\<close>

text \<open>How a middleware hands control back: \<open>next()\<close> or \<open>next(err)\<close>.\<close>

datatype next_call = Next | NextError mail_error

text \<open>The \<open>pre('save')\<close> hook of the one-time-code schema, for a document
  with \<open>this.isNew = isNew\<close>. An error of \<open>sendMail\<close> is caught and
  logged.\<close>

definition otp_pre_save ::
  "environment \<Rightarrow> smtp_world \<Rightarrow> bool \<Rightarrow> otp_doc \<Rightarrow> next_call \<times> smtp_event list" where
  \<open>otp_pre_save env smtp isNew doc =
     (if isNew then
        (if env_falsy (env_NODEMAILER_USER env) \<or> env_falsy (env_NODEMAILER_PASS env)
         then (Next, [])
         else
           (let created = CreateTransport (env_text (env_NODEMAILER_USER env)) (env_text (env_NODEMAILER_PASS env));
                msg = \<lparr>mail_from = ''"AskMyFile" <'' @ env_text (env_NODEMAILER_USER env) @ ''>'',
                        mail_to = otp_email doc, mail_subject = ''Your OTP Code'',
                        mail_html = otp_html (otp_otp doc),
                        mail_text = Some (''Your OTP is '' @ otp_otp doc @ '' (valid for 5 minutes)'')\<rparr>
            in case send_result smtp of
                 Inl err \<Rightarrow> (Next, [created, SendMail msg])
               | Inr messageId \<Rightarrow> (Next, [created, SendMail msg])))
      else (Next, []))\<close>

text \<open>
  The pattern of the schema's \<open>match\<close> validator,
  \<^verbatim>\<open>/^\w+([.-]?\w+)*@\w+([.-]?\w+)*(\.\w{2,3})+$/\<close>, as a regular expression
  over characters, and its test by derivatives. The pattern is anchored at both
  ends and has no flags, so the test is a match of the whole string.
\<close>

datatype rx = RNul | REps | RChr char | RWord | RAlt rx rx | RSeq rx rx | RStar rx

text \<open>The class \<^verbatim>\<open>\w\<close>: digits, letters and the underscore.\<close>

definition is_word :: "char \<Rightarrow> bool" where
  "is_word c =
     (let n = (of_char c :: nat) in
      (48 \<le> n \<and> n \<le> 57) \<or> (65 \<le> n \<and> n \<le> 90) \<or> n = 95 \<or> (97 \<le> n \<and> n \<le> 122))"

fun nullable :: "rx \<Rightarrow> bool" where
  "nullable RNul = False"
| "nullable REps = True"
| "nullable (RChr c) = False"
| "nullable RWord = False"
| "nullable (RAlt r s) = (nullable r \<or> nullable s)"
| "nullable (RSeq r s) = (nullable r \<and> nullable s)"
| "nullable (RStar r) = True"

definition rx_alt :: "rx \<Rightarrow> rx \<Rightarrow> rx" where
  "rx_alt r s = (if r = RNul then s else if s = RNul then r else if r = s then r else RAlt r s)"

definition rx_seq :: "rx \<Rightarrow> rx \<Rightarrow> rx" where
  "rx_seq r s = (if r = RNul \<or> s = RNul then RNul else if r = REps then s else RSeq r s)"

fun deriv :: "char \<Rightarrow> rx \<Rightarrow> rx" where
  "deriv c RNul = RNul"
| "deriv c REps = RNul"
| "deriv c (RChr d) = (if c = d then REps else RNul)"
| "deriv c RWord = (if is_word c then REps else RNul)"
| "deriv c (RAlt r s) = rx_alt (deriv c r) (deriv c s)"
| "deriv c (RSeq r s) =
     (if nullable r then rx_alt (rx_seq (deriv c r) s) (deriv c s) else rx_seq (deriv c r) s)"
| "deriv c (RStar r) = rx_seq (deriv c r) (RStar r)"

fun rx_test :: "rx \<Rightarrow> string \<Rightarrow> bool" where
  "rx_test r [] = nullable r"
| "rx_test r (c # cs) = rx_test (deriv c r) cs"

text \<open>What a regular expression denotes, to state that the test decides it.\<close>

inductive_set star :: "string set \<Rightarrow> string set" for A :: "string set" where
  star_empty: "[] \<in> star A"
| star_step: "u \<in> A \<Longrightarrow> v \<in> star A \<Longrightarrow> u @ v \<in> star A"

definition conc :: "string set \<Rightarrow> string set \<Rightarrow> string set" where
  "conc A B = {u @ v | u v. u \<in> A \<and> v \<in> B}"

fun lang :: "rx \<Rightarrow> string set" where
  "lang RNul = {}"
| "lang REps = {[]}"
| "lang (RChr c) = {[c]}"
| "lang RWord = {[c] | c. is_word c}"
| "lang (RAlt r s) = lang r \<union> lang s"
| "lang (RSeq r s) = conc (lang r) (lang s)"
| "lang (RStar r) = star (lang r)"

definition rx_plus :: "rx \<Rightarrow> rx" where
  "rx_plus r = RSeq r (RStar r)"

definition rx_opt :: "rx \<Rightarrow> rx" where
  "rx_opt r = RAlt r REps"

definition email_pattern :: rx where
  "email_pattern =
     RSeq (rx_plus RWord)
    (RSeq (RStar (RSeq (rx_opt (RAlt (RChr CHR ''.'') (RChr CHR ''-''))) (rx_plus RWord)))
    (RSeq (RChr CHR ''@'')
    (RSeq (rx_plus RWord)
    (RSeq (RStar (RSeq (rx_opt (RAlt (RChr CHR ''.'') (RChr CHR ''-''))) (rx_plus RWord)))
          (rx_plus (RSeq (RChr CHR ''.'') (RSeq RWord (RSeq RWord (rx_opt RWord)))))))))"

text \<open>
  The validators of the schema, path by path in the order of the schema; on
  each path the first validator that fails gives the message. \<open>required\<close>
  fails on an empty string; \<open>match\<close> and \<open>minlength\<close> are then tried on
  a non-empty one.
\<close>

definition otp_validate :: "otp_doc \<Rightarrow> (string \<times> string) list" where
  "otp_validate doc =
     (if otp_email doc = [] then [(''email'', ''Email is required'')]
      else if \<not> rx_test email_pattern (otp_email doc) then [(''email'', ''Invalid email'')]
      else [])
     @ (if otp_otp doc = [] then [(''otp'', ''OTP is required'')]
        else if length (otp_otp doc) < 6 then [(''otp'', ''OTP must be 6 characters long'')]
        else [])"

datatype create_error =
    ValidationError "(string \<times> string) list"
  | HookError mail_error
  | StoreError string
  | DuplicateKey string

text \<open>
  Creating a one-time-code record in the collection \<open>otps\<close>. The
  persistence library validates the new document against the schema and
  raises a validation error when a validator fails; only then does it run the
  \<open>pre('save')\<close> hook, and it gives up when the hook hands back an error.
  The insertion can itself fail (\<open>store_error\<close>), and the unique index on
  \<open>email\<close> refuses a document whose address the collection already holds.
  The \<open>createdAt\<close> field and its expiry concern time and are not part of
  the document.
\<close>

definition OTP_create ::
  "environment \<Rightarrow> smtp_world \<Rightarrow> string option \<Rightarrow> otp_doc \<Rightarrow> otp_doc list
     \<Rightarrow> (create_error + otp_doc list) \<times> smtp_event list" where
  "OTP_create env smtp store_error doc otps =
     (if otp_validate doc \<noteq> [] then (Inl (ValidationError (otp_validate doc)), [])
      else
        (case otp_pre_save env smtp True doc of
           (NextError err, events) \<Rightarrow> (Inl (HookError err), events)
         | (Next, events) \<Rightarrow>
             (case store_error of
                Some msg \<Rightarrow> (Inl (StoreError msg), events)
              | None \<Rightarrow>
                  if otp_email doc \<in> set (map otp_email otps)
                  then (Inl (DuplicateKey (otp_email doc)), events)
                  else (Inr (otps @ [doc]), events))))"

section \<open>Initial state and sample inputs\<close>

text \<open>The state when the module has just been loaded, over an empty record store.\<close>

definition init_state :: app_state where
  "init_state = \<lparr>userCookies = Map.empty, pdfs = [], queryHistory = [], clients = [], sent = []\<rparr>"

text \<open>A hook run that writes the store entry of \<open>U\<close>: a fulfilled response
  to the client of \<open>U\<close> with a truthy \<open>set-cookie\<close> header.\<close>

definition overwrites :: "user_id \<Rightarrow> hook_event \<Rightarrow> bool" where
  "overwrites U e =
     (case e of
        ResponseHook u (Fulfilled response) \<Rightarrow>
          u = U \<and> header_truthy (map_of (resp_headers response) ''set-cookie'')
      | _ \<Rightarrow> False)"

definition sample_env :: environment where
  "sample_env = \<lparr>env_AI_SERVER_URL = None, env_NODEMAILER_USER = None,
                  env_NODEMAILER_PASS = None, env_NODE_ENV = None\<rparr>"

definition sample_world :: "net_result \<Rightarrow> world" where
  "sample_world n = \<lparr>net = n, find_error = None, save_error = None,
                      new_id = ''65f0c0ffee0000000000a001'', boundary = ''bnd42''\<rparr>"

definition sample_config :: request_config where
  "sample_config = \<lparr>req_baseURL = ''http://127.0.0.1:5000'', req_url = ''/query'',
                     req_headers = [(''Accept'', ''application/json'')],
                     req_withCredentials = True,
                     req_timeout = 60000, req_body = NoBody\<rparr>"

definition cookie_response :: "int \<Rightarrow> string list \<Rightarrow> http_response" where
  "cookie_response code cs = \<lparr>resp_status = code, resp_headers = [(''set-cookie'', HArr cs)], resp_data = JNull\<rparr>"

text \<open>Sample inputs: a record store holding one document of \<open>alice\<close>, a
  question about it, an upload, and three upstream responses.\<close>

definition sample_state :: app_state where
  "sample_state = init_state\<lparr>pdfs :=
     [\<lparr>pdf_id = ''65f0c0ffee0000000000b001'', pdf_filename = ''1700000000-report.pdf'',
       pdf_originalname = ''report.pdf'', pdf_path = ''uploads/1700000000-report.pdf'',
       pdf_user = ''alice''\<rparr>]\<rparr>"

definition sample_query :: "user_id \<Rightarrow> query_req" where
  "sample_query user = \<lparr>qr_question = JStr ''What is the total?'',
                         qr_pdfId = JStr ''65f0c0ffee0000000000b001'', qr_user = user\<rparr>"

definition sample_upload :: upload_req where
  "sample_upload = \<lparr>ur_file = Some \<lparr>file_path = ''uploads/1700000000-report.pdf'',
                                      file_originalname = ''report.pdf'',
                                      file_filename = ''1700000000-report.pdf''\<rparr>,
                     ur_user = ''alice''\<rparr>"

definition airplay_response :: http_response where
  "airplay_response = \<lparr>resp_status = 403, resp_headers = [(''server'', HStr ''AirTunes/675.4.1'')],
                        resp_data = JStr []\<rparr>"

definition error_response :: "int \<Rightarrow> jsval \<Rightarrow> http_response" where
  "error_response code d = \<lparr>resp_status = code, resp_headers = [(''server'', HStr ''Werkzeug/3.0.1'')],
                             resp_data = d\<rparr>"

definition answer_response :: http_response where
  "answer_response = \<lparr>resp_status = 200, resp_headers = [(''set-cookie'', HArr [''session=abc; Path=/''])],
     resp_data = JObj [(''success'', JBool True),
                       (''data'', JObj [(''answer'', JStr ''42''), (''conversation_history'', JArr [])])]\<rparr>"

section \<open>The hooks and the session store\<close>

lemma on_response_other: "u \<noteq> v \<Longrightarrow> on_response u r store v = store v"
  by (simp add: on_response_def split: option.splits)

lemma on_response_local:
  assumes "store v = store' v"
  shows "on_response u r store v = on_response u r store' v"
  using assms by (simp add: on_response_def split: option.splits)

lemma on_response_capture:
  "map_of (resp_headers response) ''set-cookie'' = Some h \<Longrightarrow> header_truthy (Some h) \<Longrightarrow>
   on_response u response store = store(u \<mapsto> cookieString h)"
  by (simp add: on_response_def)

lemma hook_step_other:
  assumes "ev_user e \<noteq> v"
  shows "hook_step store e v = store v"
proof (cases e)
  case (RequestHook u c)
  then show ?thesis by simp
next
  case (ResponseHook u r)
  with assms show ?thesis by (cases r) (simp_all add: on_response_other)
qed

lemma hook_step_local:
  assumes "store v = store' v"
  shows "hook_step store e v = hook_step store' e v"
proof (cases e)
  case (RequestHook u c)
  with assms show ?thesis by simp
next
  case (ResponseHook u r)
  show ?thesis
  proof (cases r)
    case (Fulfilled response)
    from assms have "on_response u response store v = on_response u response store' v"
      by (rule on_response_local)
    with ResponseHook Fulfilled show ?thesis by simp
  next
    case (Rejected err)
    with ResponseHook assms show ?thesis by simp
  qed
qed

lemma hook_step_keep:
  assumes "\<not> overwrites U e"
  shows "hook_step store e U = store U"
proof (cases e)
  case (RequestHook u c)
  then show ?thesis by simp
next
  case (ResponseHook u r)
  show ?thesis
  proof (cases r)
    case (Fulfilled response)
    with ResponseHook assms show ?thesis
      by (auto simp: overwrites_def on_response_def header_truthy_def split: option.splits)
  next
    case (Rejected err)
    with ResponseHook show ?thesis by simp
  qed
qed

lemma run_hooks_Nil: "run_hooks store [] = store"
  by (simp add: run_hooks_def)

lemma run_hooks_Cons: "run_hooks store (e # evs) = run_hooks (hook_step store e) evs"
  by (simp add: run_hooks_def)

lemma run_hooks_append: "run_hooks store (xs @ ys) = run_hooks (run_hooks store xs) ys"
  by (simp add: run_hooks_def)

text \<open>The entry of \<open>B\<close> after a run does not depend on the runs of the
  hooks of another user \<open>A\<close>, nor on the other entries of the store.\<close>

lemma run_hooks_drop_user:
  "A \<noteq> B \<Longrightarrow> store B = store' B \<Longrightarrow>
   run_hooks store evs B = run_hooks store' (filter (\<lambda>e. ev_user e \<noteq> A) evs) B"
proof (induction evs arbitrary: store store')
  case Nil
  then show ?case by (simp add: run_hooks_Nil)
next
  case (Cons e evs)
  show ?case
  proof (cases "ev_user e = A")
    case True
    with Cons.prems have "hook_step store e B = store' B"
      by (simp add: hook_step_other)
    then have "run_hooks (hook_step store e) evs B
             = run_hooks store' (filter (\<lambda>e. ev_user e \<noteq> A) evs) B"
      by (rule Cons.IH [OF Cons.prems(1)])
    with True show ?thesis
      by (simp add: run_hooks_Cons)
  next
    case False
    from Cons.prems(2) have "hook_step store e B = hook_step store' e B"
      by (rule hook_step_local)
    then have "run_hooks (hook_step store e) evs B
             = run_hooks (hook_step store' e) (filter (\<lambda>e. ev_user e \<noteq> A) evs) B"
      by (rule Cons.IH [OF Cons.prems(1)])
    with False show ?thesis
      by (simp add: run_hooks_Cons)
  qed
qed

lemma run_hooks_keep:
  "\<forall>e \<in> set evs. \<not> overwrites U e \<Longrightarrow> run_hooks store evs U = store U"
proof (induction evs arbitrary: store)
  case Nil
  then show ?case by (simp add: run_hooks_Nil)
next
  case (Cons e evs)
  then have "run_hooks (hook_step store e) evs U = hook_step store e U" by simp
  also have "\<dots> = store U" using Cons.prems by (simp add: hook_step_keep)
  finally show ?case by (simp add: run_hooks_Cons)
qed

lemma request_interceptor_local:
  "store B = store' B \<Longrightarrow> request_interceptor B store config = request_interceptor B store' config"
  by (simp add: request_interceptor_def)

lemma request_interceptor_cookie:
  "map_of (req_headers config) ''Cookie'' = None \<Longrightarrow>
   map_of (req_headers (request_interceptor B store config)) ''Cookie'' = Some c \<Longrightarrow>
   store B = Some c"
  by (auto simp: request_interceptor_def update_conv' split: option.splits if_splits)

text \<open>
  C1 (session isolation). Take any sequence of hook runs, by any users, from
  any store, and two distinct users \<open>A\<close> and \<open>B\<close>. The request the client
  of \<open>B\<close> then sends is the request it would send had none of the hooks of
  \<open>A\<close> ever run: nothing captured for \<open>A\<close> reaches an exchange of \<open>B\<close>.
  And when the request hook of \<open>B\<close> puts a \<open>Cookie\<close> header \<open>c\<close> on a
  request that had none, the store holds \<open>c\<close> under the key \<open>B\<close>.
\<close>

theorem session_isolation:
  assumes "A \<noteq> B"
  shows "request_interceptor B (run_hooks store evs) config
           = request_interceptor B (run_hooks store (filter (\<lambda>e. ev_user e \<noteq> A) evs)) config
       \<and> (map_of (req_headers config) ''Cookie'' = None \<longrightarrow>
          map_of (req_headers (request_interceptor B (run_hooks store evs) config)) ''Cookie'' = Some c \<longrightarrow>
          run_hooks store evs B = Some c)"
proof -
  have "run_hooks store evs B = run_hooks store (filter (\<lambda>e. ev_user e \<noteq> A) evs) B"
    using assms by (rule run_hooks_drop_user) simp
  then have "request_interceptor B (run_hooks store evs) config
           = request_interceptor B (run_hooks store (filter (\<lambda>e. ev_user e \<noteq> A) evs)) config"
    by (rule request_interceptor_local)
  then show ?thesis
    using request_interceptor_cookie [of config B "run_hooks store evs" c] by blast
qed

theorem session_isolation_witness:
  "''alice'' \<noteq> ''bob''
   \<and> request_interceptor ''bob''
        (run_hooks (userCookies init_state)
           [ResponseHook ''alice'' (Fulfilled (cookie_response 200 [''sid=A''])),
            ResponseHook ''bob'' (Fulfilled (cookie_response 200 [''sid=B''])),
            RequestHook ''alice'' sample_config]) sample_config
      = request_interceptor ''bob''
          (run_hooks (userCookies init_state)
             (filter (\<lambda>e. ev_user e \<noteq> ''alice'')
                [ResponseHook ''alice'' (Fulfilled (cookie_response 200 [''sid=A''])),
                 ResponseHook ''bob'' (Fulfilled (cookie_response 200 [''sid=B''])),
                 RequestHook ''alice'' sample_config])) sample_config
   \<and> map_of (req_headers sample_config) ''Cookie'' = None
   \<and> map_of (req_headers (request_interceptor ''bob''
        (run_hooks (userCookies init_state)
           [ResponseHook ''alice'' (Fulfilled (cookie_response 200 [''sid=A''])),
            ResponseHook ''bob'' (Fulfilled (cookie_response 200 [''sid=B''])),
            RequestHook ''alice'' sample_config]) sample_config)) ''Cookie'' = Some ''sid=B''
   \<and> run_hooks (userCookies init_state)
           [ResponseHook ''alice'' (Fulfilled (cookie_response 200 [''sid=A''])),
            ResponseHook ''bob'' (Fulfilled (cookie_response 200 [''sid=B''])),
            RequestHook ''alice'' sample_config] ''bob'' = Some ''sid=B''"
  using session_isolation [of "''alice''" "''bob''" "userCookies init_state"
      "[ResponseHook ''alice'' (Fulfilled (cookie_response 200 [''sid=A''])),
        ResponseHook ''bob'' (Fulfilled (cookie_response 200 [''sid=B''])),
        RequestHook ''alice'' sample_config]" sample_config "''sid=B''"]
  by (simp add: init_state_def run_hooks_def on_response_def header_truthy_def cookieString_def
        cookie_response_def request_interceptor_def sample_config_def)

section \<open>One exchange\<close>

lemma response_interceptor_fst: "fst (response_interceptor u p store) = p"
  by (cases p) simp_all

lemma aiAxios_post_fst: "fst (aiAxios_post u config w st) = settle (net w)"
  by (simp add: aiAxios_post_def Let_def response_interceptor_fst)

lemma aiAxios_post_cookies:
  "userCookies (snd (aiAxios_post u config w st)) = snd (response_interceptor u (settle (net w)) (userCookies st))"
  by (simp add: aiAxios_post_def Let_def)

lemma aiAxios_post_pdfs: "pdfs (snd (aiAxios_post u config w st)) = pdfs st"
  by (simp add: aiAxios_post_def Let_def)

lemma aiAxios_post_queryHistory: "queryHistory (snd (aiAxios_post u config w st)) = queryHistory st"
  by (simp add: aiAxios_post_def Let_def)

lemma aiAxios_post_sent:
  "sent (snd (aiAxios_post u config w st)) = sent st @ [(u, request_interceptor u (userCookies st) config)]"
  by (simp add: aiAxios_post_def Let_def)

lemma aiAxios_post_clients: "clients (snd (aiAxios_post u config w st)) = clients st"
  by (simp add: aiAxios_post_def Let_def)

text \<open>
  C2, as the code has it. An exchange whose response the client accepts (a
  status from 200 to 299) and which carries a truthy \<open>set-cookie\<close> header
  writes that header's value (an array joined with \<open>; \<close>) to the store entry
  of the user, over any prior value. A response with any other status is
  handed to the error callback, which stores nothing: the store is unchanged.
  So is it when no response arrives.
\<close>

theorem capture_on_success_only:
  "(net w = HttpResponse response \<and> map_of (resp_headers response) ''set-cookie'' = Some h
      \<and> header_truthy (Some h) \<longrightarrow>
    userCookies (snd (aiAxios_post userId config w st)) =
      (if 200 \<le> resp_status response \<and> resp_status response < 300
       then (userCookies st)(userId \<mapsto> cookieString h)
       else userCookies st))
   \<and> (net w = NoResponse msg code \<longrightarrow>
        userCookies (snd (aiAxios_post userId config w st)) = userCookies st)"
  by (simp add: aiAxios_post_cookies settle_def on_response_capture)

theorem capture_on_success_only_witness:
  "net (sample_world (HttpResponse (cookie_response 200 [''a=1'', ''b=2''])))
      = HttpResponse (cookie_response 200 [''a=1'', ''b=2''])
   \<and> map_of (resp_headers (cookie_response 200 [''a=1'', ''b=2''])) ''set-cookie'' = Some (HArr [''a=1'', ''b=2''])
   \<and> header_truthy (Some (HArr [''a=1'', ''b=2'']))
   \<and> userCookies (snd (aiAxios_post ''u1'' sample_config
          (sample_world (HttpResponse (cookie_response 200 [''a=1'', ''b=2'']))) init_state)) ''u1''
        = Some ''a=1; b=2''
   \<and> net (sample_world (NoResponse ''connect ECONNREFUSED 127.0.0.1:5000'' (Some ''ECONNREFUSED'')))
      = NoResponse ''connect ECONNREFUSED 127.0.0.1:5000'' (Some ''ECONNREFUSED'')
   \<and> userCookies (snd (aiAxios_post ''u1'' sample_config
          (sample_world (NoResponse ''connect ECONNREFUSED 127.0.0.1:5000'' (Some ''ECONNREFUSED''))) init_state)) ''u1''
        = None"
  using capture_on_success_only [of "sample_world (HttpResponse (cookie_response 200 [''a=1'', ''b=2'']))"
      "cookie_response 200 [''a=1'', ''b=2'']" "HArr [''a=1'', ''b=2'']" "''u1''" sample_config init_state
      "''x''" None]
    capture_on_success_only [of "sample_world (NoResponse ''connect ECONNREFUSED 127.0.0.1:5000'' (Some ''ECONNREFUSED''))"
      "cookie_response 200 []" "HArr []" "''u1''" sample_config init_state
      "''connect ECONNREFUSED 127.0.0.1:5000''" "Some ''ECONNREFUSED''"]
  by (simp add: sample_world_def cookie_response_def header_truthy_def cookieString_def init_state_def)

text \<open>
  The claim C2 as it is worded fails: a 401 response carrying
  \<open>set-cookie: session=abc\<close> leaves the store entry of the user empty.
\<close>

theorem capture_on_failure_counterexample:
  "userCookies (snd (aiAxios_post ''u1'' sample_config
      (sample_world (HttpResponse (cookie_response 401 [''session=abc''])))
      init_state)) ''u1'' \<noteq> Some ''session=abc''"
  by (simp add: aiAxios_post_cookies settle_def init_state_def sample_world_def cookie_response_def)

section \<open>Capture, then reuse\<close>






section \<open>Settling and the handlers' paths\<close>

lemma settle_error_status:
  "\<not> (200 \<le> resp_status r \<and> resp_status r < 300) \<Longrightarrow>
   settle (HttpResponse r) = Rejected \<lparr>err_response = Some r, err_request = True,
      err_message = ''Request failed with status code '' @ string_of_int (resp_status r), err_code = None\<rparr>"
  by (auto simp: settle_def)

lemma settle_success_status:
  "200 \<le> resp_status r \<Longrightarrow> resp_status r < 300 \<Longrightarrow> settle (HttpResponse r) = Fulfilled r"
  by (simp add: settle_def)

lemma settle_no_response:
  "settle (NoResponse msg code) =
     Rejected \<lparr>err_response = None, err_request = True, err_message = msg, err_code = code\<rparr>"
  by (simp add: settle_def)

lemma settle_Fulfilled_iff:
  "settle n = Fulfilled r \<longleftrightarrow> n = HttpResponse r \<and> 200 \<le> resp_status r \<and> resp_status r < 300"
  by (auto simp: settle_def split: net_result.splits if_splits)

lemma getAiAxiosForUser_fields:
  "pdfs (getAiAxiosForUser u st) = pdfs st"
  "queryHistory (getAiAxiosForUser u st) = queryHistory st"
  "userCookies (getAiAxiosForUser u st) = userCookies st"
  "sent (getAiAxiosForUser u st) = sent st"
  "clients (getAiAxiosForUser u st) = clients st @ [u]"
  by (simp_all add: getAiAxiosForUser_def)

lemma uploadPDF_rejected:
  "ur_file req = Some file \<Longrightarrow> settle (net w) = Rejected error \<Longrightarrow>
   fst (uploadPDF env w req st) = uploadPDF_catch env error"
  by (simp add: uploadPDF_def Let_def aiAxios_post_fst)

lemma queryPDF_rejected:
  "truthy (qr_question req) \<Longrightarrow> truthy (qr_pdfId req) \<Longrightarrow> find_error w = None \<Longrightarrow>
   PDF_findOne (pdfs st) (qr_pdfId req) (qr_user req) = Some pdf \<Longrightarrow>
   settle (net w) = Rejected error \<Longrightarrow>
   fst (queryPDF env w req st) = queryPDF_catch error"
  by (simp add: queryPDF_def Let_def aiAxios_post_fst)

lemma queryPDF_fulfilled:
  "truthy (qr_question req) \<Longrightarrow> truthy (qr_pdfId req) \<Longrightarrow> find_error w = None \<Longrightarrow>
   PDF_findOne (pdfs st) (qr_pdfId req) (qr_user req) = Some pdf \<Longrightarrow>
   settle (net w) = Fulfilled r \<Longrightarrow>
   \<not> truthy (js_get (resp_data r) ''success'') \<or> \<not> truthy (js_get (resp_data r) ''data'') \<Longrightarrow>
   fst (queryPDF env w req st) =
     respond 500 [(''error'', js_or (js_get (resp_data r) ''message'') (JStr ''Invalid response from AI server''))]"
  by (auto simp add: queryPDF_def Let_def aiAxios_post_fst)

lemma clearVectorData_rejected:
  "settle (net w) = Rejected error \<Longrightarrow>
   fst (clearVectorData env w user st) = clearVectorData_catch error"
  by (simp add: clearVectorData_def Let_def aiAxios_post_fst)

lemma sample_query_found:
  "PDF_findOne (pdfs sample_state) (qr_pdfId (sample_query ''alice'')) (qr_user (sample_query ''alice''))
     = Some \<lparr>pdf_id = ''65f0c0ffee0000000000b001'', pdf_filename = ''1700000000-report.pdf'',
       pdf_originalname = ''report.pdf'', pdf_path = ''uploads/1700000000-report.pdf'',
       pdf_user = ''alice''\<rparr>"
  by (simp add: PDF_findOne_def sample_state_def sample_query_def init_state_def)

section \<open>Error replies\<close>

lemma header_or_truthy: "header_truthy (Some v) \<Longrightarrow> header_or (Some v) d = v"
  by (simp add: header_or_def)

lemma js_includes_nonempty: "js_includes s sub \<Longrightarrow> sub \<noteq> [] \<Longrightarrow> s \<noteq> []"
  by (cases s) auto

lemma uploadPDF_catch_airplay:
  assumes "err_response error = Some r" and "resp_status r = 403"
    and "map_of (resp_headers r) ''server'' = Some (HStr s)"
    and "js_includes s ''AirTunes'' \<or> js_includes s ''AirPlay''"
  shows "uploadPDF_catch env error = respond 503 port_conflict_body"
proof -
  from assms(4) have "s \<noteq> []" by (auto dest: js_includes_nonempty)
  then have "header_truthy (Some (HStr s))" by (simp add: header_truthy_def)
  then have "header_or (map_of (resp_headers r) ''server'') (header_or (map_of (resp_headers r) ''Server'') (HStr [])) = HStr s"
    using assms(3) by (simp add: header_or_truthy)
  with assms(1,2,4) show ?thesis
    by (simp add: uploadPDF_catch_def Let_def header_includes_def)
qed

lemma echo_catch_response:
  "err_response error = Some r \<Longrightarrow> resp_status r \<noteq> 0 \<Longrightarrow>
   echo_catch m error = respond (resp_status r)
      [(''error'', js_or (js_get (resp_data r) ''message'')
                     (js_or (js_get (resp_data r) ''error'') (JStr ''Error from AI server'')))]"
  by (simp add: echo_catch_def)

text \<open>
  C3, as the code has it. The upstream answers 403 with a \<open>server\<close> header
  that contains \<open>AirTunes\<close> or \<open>AirPlay\<close>. Submit artifact replies 503
  with the port-conflict remediation body, whatever the response body. Submit
  question and reset have no such rule: they echo the status 403, with the
  message or error text of the upstream body when it has one and
  \<open>Error from AI server\<close> otherwise.
\<close>

theorem port_conflict_only_on_upload:
  assumes "net w = HttpResponse r" and "resp_status r = 403"
    and "map_of (resp_headers r) ''server'' = Some (HStr s)"
    and "js_includes s ''AirTunes'' \<or> js_includes s ''AirPlay''"
  shows "(ur_file ureq = Some file \<longrightarrow>
            fst (uploadPDF env w ureq st) = respond 503 port_conflict_body)
       \<and> (truthy (qr_question qreq) \<and> truthy (qr_pdfId qreq) \<and> find_error w = None
           \<and> PDF_findOne (pdfs st) (qr_pdfId qreq) (qr_user qreq) = Some pdf \<longrightarrow>
            fst (queryPDF env w qreq st) = respond 403
              [(''error'', js_or (js_get (resp_data r) ''message'')
                             (js_or (js_get (resp_data r) ''error'') (JStr ''Error from AI server'')))])
       \<and> fst (clearVectorData env w user st) = respond 403
              [(''error'', js_or (js_get (resp_data r) ''message'')
                             (js_or (js_get (resp_data r) ''error'') (JStr ''Error from AI server'')))]"
proof -
  let ?e = "\<lparr>err_response = Some r, err_request = True,
      err_message = ''Request failed with status code '' @ string_of_int (resp_status r), err_code = None\<rparr>"
  from assms(2) have "settle (HttpResponse r) = Rejected ?e"
    by (intro settle_error_status) simp
  with assms(1) have rej: "settle (net w) = Rejected ?e"
    by simp
  have up: "uploadPDF_catch env ?e = respond 503 port_conflict_body"
    using assms(2,3,4) by (intro uploadPDF_catch_airplay [where r = r and s = s]) simp_all
  have ec: "\<And>m. echo_catch m ?e = respond 403
              [(''error'', js_or (js_get (resp_data r) ''message'')
                             (js_or (js_get (resp_data r) ''error'') (JStr ''Error from AI server'')))]"
    using assms(2) by (simp add: echo_catch_response [where r = r])
  show ?thesis
    using rej up ec
    by (simp add: uploadPDF_rejected queryPDF_rejected clearVectorData_rejected
          queryPDF_catch_def clearVectorData_catch_def)
qed

theorem port_conflict_only_on_upload_witness:
  "net (sample_world (HttpResponse airplay_response)) = HttpResponse airplay_response
   \<and> resp_status airplay_response = 403
   \<and> map_of (resp_headers airplay_response) ''server'' = Some (HStr ''AirTunes/675.4.1'')
   \<and> js_includes ''AirTunes/675.4.1'' ''AirTunes''
   \<and> ur_file sample_upload \<noteq> None
   \<and> fst (uploadPDF sample_env (sample_world (HttpResponse airplay_response)) sample_upload sample_state)
        = respond 503 port_conflict_body
   \<and> truthy (qr_question (sample_query ''alice'')) \<and> truthy (qr_pdfId (sample_query ''alice''))
   \<and> find_error (sample_world (HttpResponse airplay_response)) = None
   \<and> PDF_findOne (pdfs sample_state) (qr_pdfId (sample_query ''alice'')) (qr_user (sample_query ''alice'')) \<noteq> None
   \<and> fst (queryPDF sample_env (sample_world (HttpResponse airplay_response)) (sample_query ''alice'') sample_state)
        = respond 403 [(''error'', JStr ''Error from AI server'')]
   \<and> fst (clearVectorData sample_env (sample_world (HttpResponse airplay_response)) ''alice'' sample_state)
        = respond 403 [(''error'', JStr ''Error from AI server'')]"
proof -
  have h1: "net (sample_world (HttpResponse airplay_response)) = HttpResponse airplay_response"
    by (simp add: sample_world_def)
  have h2: "resp_status airplay_response = 403"
    by (simp add: airplay_response_def)
  have h3: "map_of (resp_headers airplay_response) ''server'' = Some (HStr ''AirTunes/675.4.1'')"
    by (simp add: airplay_response_def)
  have h4: "js_includes ''AirTunes/675.4.1'' ''AirTunes''" by simp
  then have h4': "js_includes ''AirTunes/675.4.1'' ''AirTunes'' \<or> js_includes ''AirTunes/675.4.1'' ''AirPlay''" ..
  have h5: "ur_file sample_upload = Some \<lparr>file_path = ''uploads/1700000000-report.pdf'',
                                      file_originalname = ''report.pdf'',
                                      file_filename = ''1700000000-report.pdf''\<rparr>"
    by (simp add: sample_upload_def)
  have h6: "truthy (qr_question (sample_query ''alice''))" "truthy (qr_pdfId (sample_query ''alice''))"
    "find_error (sample_world (HttpResponse airplay_response)) = None"
    by (simp_all add: sample_query_def sample_world_def)
  have d: "resp_data airplay_response = JStr []" by (simp add: airplay_response_def)
  from port_conflict_only_on_upload [OF h1 h2 h3 h4', of sample_upload _ sample_env sample_state
      "sample_query ''alice''" _ "''alice''"] h5 h6 sample_query_found
  show ?thesis
    using h1 h2 h3 h4 by (simp add: d js_or_def js_get_def)
qed

text \<open>
  The claim C3 as it is worded fails for submit question: on a 403 from
  \<open>AirTunes\<close> the caller's status is not 503.
\<close>

theorem port_conflict_query_counterexample:
  "rstatus (fst (queryPDF sample_env (sample_world (HttpResponse airplay_response))
                   (sample_query ''alice'') sample_state)) \<noteq> 503"
proof -
  have "settle (net (sample_world (HttpResponse airplay_response)))
          = Rejected \<lparr>err_response = Some airplay_response, err_request = True,
              err_message = ''Request failed with status code '' @ string_of_int (resp_status airplay_response),
              err_code = None\<rparr>"
    by (simp add: sample_world_def settle_def airplay_response_def)
  then have "fst (queryPDF sample_env (sample_world (HttpResponse airplay_response))
                   (sample_query ''alice'') sample_state)
        = queryPDF_catch \<lparr>err_response = Some airplay_response, err_request = True,
              err_message = ''Request failed with status code '' @ string_of_int (resp_status airplay_response),
              err_code = None\<rparr>"
    using sample_query_found
    by (intro queryPDF_rejected) (simp_all add: sample_query_def sample_world_def)
  then show ?thesis
    by (simp add: queryPDF_catch_def echo_catch_def respond_def airplay_response_def)
qed

lemma uploadPDF_catch_status:
  "err_response error = Some r \<Longrightarrow>
   rstatus (uploadPDF_catch env error) =
     (if resp_status r = 403 then 503 else if resp_status r = 400 then 400
      else if resp_status r \<ge> 500 then 502 else resp_status r)"
  by (simp add: uploadPDF_catch_def Let_def respond_def)

lemma uploadPDF_catch_400:
  "err_response error = Some r \<Longrightarrow> resp_status r = 400 \<Longrightarrow>
   rbody (uploadPDF_catch env error) =
     JObj [(''error'', if truthy (js_get (resp_data r) ''message'') then js_get (resp_data r) ''message''
                       else if truthy (resp_data r) then resp_data r
                       else JStr ''Invalid request to AI server'')]"
  by (simp add: uploadPDF_catch_def Let_def respond_def js_or_def)

lemma uploadPDF_catch_500:
  "err_response error = Some r \<Longrightarrow> resp_status r = 500 \<Longrightarrow>
   rbody (uploadPDF_catch env error) =
     JObj [(''error'', JStr ''AI server internal error. Please try again later.''),
           (''details'', if truthy (js_get (resp_data r) ''message'') then js_get (resp_data r) ''message''
                         else JStr ''Internal server error on AI server'')]"
  by (simp add: uploadPDF_catch_def Let_def respond_def js_or_def)

lemma uploadPDF_catch_other:
  "err_response error = Some r \<Longrightarrow> resp_status r \<noteq> 403 \<Longrightarrow> resp_status r \<noteq> 400 \<Longrightarrow>
   resp_status r \<noteq> 500 \<Longrightarrow>
   rbody (uploadPDF_catch env error) =
     JObj [(''error'',
        (case resp_data r of
           JStr t \<Rightarrow> JStr t
         | _ \<Rightarrow> if truthy (js_get (resp_data r) ''message'') then js_get (resp_data r) ''message''
                else if truthy (js_get (resp_data r) ''error'') then js_get (resp_data r) ''error''
                else JStr ''Error from AI server''))]"
  by (simp add: uploadPDF_catch_def Let_def respond_def js_or_def split: jsval.splits)

text \<open>
  C4, as the code has it. For submit artifact with a file, an upstream error
  response (a status outside 200 to 299) gives a caller status that is a
  function of the upstream status alone: 403 gives 503, 400 gives 400, 500 and
  every other status from 500 up give 502, every other status is echoed. On a
  400 the error text is the upstream message when present, else the body when
  it is truthy, else \<open>Invalid request to AI server\<close>; on a 500 it is
  a fixed text, with the upstream message in the details; on the remaining
  statuses it is the body when that is a string, else the upstream message,
  else the upstream error text, else \<open>Error from AI server\<close>.
\<close>

theorem upload_error_status:
  assumes "ur_file req = Some file" and "net w = HttpResponse r"
    and "\<not> (200 \<le> resp_status r \<and> resp_status r < 300)"
  shows "rstatus (fst (uploadPDF env w req st)) =
           (if resp_status r = 403 then 503 else if resp_status r = 400 then 400
            else if resp_status r \<ge> 500 then 502 else resp_status r)
       \<and> (resp_status r = 400 \<longrightarrow>
            rbody (fst (uploadPDF env w req st)) =
              JObj [(''error'', if truthy (js_get (resp_data r) ''message'') then js_get (resp_data r) ''message''
                                else if truthy (resp_data r) then resp_data r
                                else JStr ''Invalid request to AI server'')])
       \<and> (resp_status r = 500 \<longrightarrow>
            rbody (fst (uploadPDF env w req st)) =
              JObj [(''error'', JStr ''AI server internal error. Please try again later.''),
                    (''details'', if truthy (js_get (resp_data r) ''message'') then js_get (resp_data r) ''message''
                                  else JStr ''Internal server error on AI server'')])
       \<and> (resp_status r \<noteq> 403 \<and> resp_status r \<noteq> 400 \<and> resp_status r \<noteq> 500 \<longrightarrow>
            rbody (fst (uploadPDF env w req st)) =
              JObj [(''error'',
                 (case resp_data r of
                    JStr t \<Rightarrow> JStr t
                  | _ \<Rightarrow> if truthy (js_get (resp_data r) ''message'') then js_get (resp_data r) ''message''
                         else if truthy (js_get (resp_data r) ''error'') then js_get (resp_data r) ''error''
                         else JStr ''Error from AI server''))])"
proof -
  let ?e = "\<lparr>err_response = Some r, err_request = True,
      err_message = ''Request failed with status code '' @ string_of_int (resp_status r), err_code = None\<rparr>"
  from assms(3) have "settle (HttpResponse r) = Rejected ?e"
    by (rule settle_error_status)
  with assms(2) have "settle (net w) = Rejected ?e" by simp
  with assms(1) have up: "fst (uploadPDF env w req st) = uploadPDF_catch env ?e"
    by (rule uploadPDF_rejected)
  have er: "err_response ?e = Some r" by simp
  show ?thesis
    unfolding up
    using uploadPDF_catch_status [OF er, of env] uploadPDF_catch_400 [OF er, of env]
      uploadPDF_catch_500 [OF er, of env] uploadPDF_catch_other [OF er, of env]
    by blast
qed

theorem upload_error_status_witness:
  "ur_file sample_upload \<noteq> None
   \<and> net (sample_world (HttpResponse (error_response 404 (JObj [(''message'', JStr ''No such route'')]))))
       = HttpResponse (error_response 404 (JObj [(''message'', JStr ''No such route'')]))
   \<and> \<not> (200 \<le> resp_status (error_response 404 (JObj [(''message'', JStr ''No such route'')]))
        \<and> resp_status (error_response 404 (JObj [(''message'', JStr ''No such route'')])) < 300)
   \<and> resp_status (error_response 404 (JObj [(''message'', JStr ''No such route'')])) \<noteq> 403
   \<and> resp_status (error_response 404 (JObj [(''message'', JStr ''No such route'')])) \<noteq> 400
   \<and> resp_status (error_response 404 (JObj [(''message'', JStr ''No such route'')])) \<noteq> 500
   \<and> fst (uploadPDF sample_env
        (sample_world (HttpResponse (error_response 404 (JObj [(''message'', JStr ''No such route'')]))))
        sample_upload sample_state)
       = \<lparr>rstatus = 404, rbody = JObj [(''error'', JStr ''No such route'')]\<rparr>
   \<and> resp_status (error_response 400 JNull) = 400
   \<and> fst (uploadPDF sample_env (sample_world (HttpResponse (error_response 400 JNull))) sample_upload sample_state)
       = \<lparr>rstatus = 400, rbody = JObj [(''error'', JStr ''Invalid request to AI server'')]\<rparr>
   \<and> resp_status (error_response 500 JNull) = 500
   \<and> fst (uploadPDF sample_env (sample_world (HttpResponse (error_response 500 JNull))) sample_upload sample_state)
       = \<lparr>rstatus = 502, rbody = JObj [(''error'', JStr ''AI server internal error. Please try again later.''),
                    (''details'', JStr ''Internal server error on AI server'')]\<rparr>"
proof -
  have f: "ur_file sample_upload = Some \<lparr>file_path = ''uploads/1700000000-report.pdf'',
                                      file_originalname = ''report.pdf'',
                                      file_filename = ''1700000000-report.pdf''\<rparr>"
    by (simp add: sample_upload_def)
  have n: "\<And>r. net (sample_world (HttpResponse r)) = HttpResponse r"
    by (simp add: sample_world_def)
  have s: "\<And>c d. resp_status (error_response c d) = c" "\<And>c d. resp_data (error_response c d) = d"
    by (simp_all add: error_response_def)
  have a: "\<not> (200 \<le> resp_status (error_response 404 (JObj [(''message'', JStr ''No such route'')]))
        \<and> resp_status (error_response 404 (JObj [(''message'', JStr ''No such route'')])) < 300)"
    "\<not> (200 \<le> resp_status (error_response 400 JNull) \<and> resp_status (error_response 400 JNull) < 300)"
    "\<not> (200 \<le> resp_status (error_response 500 JNull) \<and> resp_status (error_response 500 JNull) < 300)"
    by (simp_all add: s)
  have eq: "\<And>x c b. (rstatus x = c \<and> rbody x = b) = (x = \<lparr>rstatus = c, rbody = b\<rparr>)"
    by auto
  from upload_error_status [OF f n a(1), of sample_env sample_state]
    upload_error_status [OF f n a(2), of sample_env sample_state]
    upload_error_status [OF f n a(3), of sample_env sample_state]
  show ?thesis
    using f n a(1) by (simp add: s js_get_def eq [symmetric])
qed

text \<open>
  The claim C4 as it is worded fails at 403, a status below 500 other than
  400: it is not echoed.
\<close>

theorem upload_403_counterexample:
  "rstatus (fst (uploadPDF sample_env
      (sample_world (HttpResponse (error_response 403 (JObj [(''message'', JStr ''Forbidden'')]))))
      sample_upload sample_state)) \<noteq> 403"
proof -
  have "ur_file sample_upload = Some \<lparr>file_path = ''uploads/1700000000-report.pdf'',
                                      file_originalname = ''report.pdf'',
                                      file_filename = ''1700000000-report.pdf''\<rparr>"
    by (simp add: sample_upload_def)
  moreover have "settle (net (sample_world (HttpResponse (error_response 403 (JObj [(''message'', JStr ''Forbidden'')])))))
      = Rejected \<lparr>err_response = Some (error_response 403 (JObj [(''message'', JStr ''Forbidden'')])),
          err_request = True,
          err_message = ''Request failed with status code '' @ string_of_int 403, err_code = None\<rparr>"
    by (simp add: sample_world_def settle_def error_response_def)
  ultimately have "fst (uploadPDF sample_env
      (sample_world (HttpResponse (error_response 403 (JObj [(''message'', JStr ''Forbidden'')]))))
      sample_upload sample_state)
    = uploadPDF_catch sample_env \<lparr>err_response = Some (error_response 403 (JObj [(''message'', JStr ''Forbidden'')])),
          err_request = True,
          err_message = ''Request failed with status code '' @ string_of_int 403, err_code = None\<rparr>"
    by (rule uploadPDF_rejected)
  then show ?thesis
    by (simp add: uploadPDF_catch_status error_response_def)
qed

section \<open>Submit question\<close>

lemma PDF_findOne_None:
  "(\<forall>p \<in> set ps. JStr (pdf_id p) = pdfId \<longrightarrow> pdf_user p \<noteq> user) \<Longrightarrow> PDF_findOne ps pdfId user = None"
  by (auto simp: PDF_findOne_def find_None_iff)

lemma queryPDF_no_question:
  "\<not> truthy (qr_question req) \<Longrightarrow>
   queryPDF env w req st = (respond 400 [(''error'', JStr ''Question is required'')], st)"
  by (simp add: queryPDF_def Let_def)

lemma queryPDF_no_pdfId:
  "truthy (qr_question req) \<Longrightarrow> \<not> truthy (qr_pdfId req) \<Longrightarrow>
   queryPDF env w req st = (respond 400 [(''error'', JStr ''PDF ID is required'')], st)"
  by (simp add: queryPDF_def Let_def)

lemma queryPDF_not_found:
  "truthy (qr_question req) \<Longrightarrow> truthy (qr_pdfId req) \<Longrightarrow> find_error w = None \<Longrightarrow>
   PDF_findOne (pdfs st) (qr_pdfId req) (qr_user req) = None \<Longrightarrow>
   queryPDF env w req st = (respond 404 [(''error'', JStr ''PDF not found or not authorized'')], st)"
  by (simp add: queryPDF_def Let_def)

lemma queryPDF_invalid_state:
  "\<not> truthy (qr_question req) \<or> \<not> truthy (qr_pdfId req)
     \<or> PDF_findOne (pdfs st) (qr_pdfId req) (qr_user req) = None \<Longrightarrow>
   snd (queryPDF env w req st) = st"
  by (auto simp: queryPDF_def Let_def split: option.splits)

text \<open>
  C5 (fail-fast validation). Submit question with a falsy question replies 400;
  with a question but a falsy artifact reference, 400; with both, a record
  store that answers, and no record of that identifier owned by the caller,
  404. On each of these paths, and whether or not the record store answers,
  the state is returned as it was: no client was built and no request sent.
\<close>

theorem query_validation_fail_fast:
  "(\<not> truthy (qr_question req) \<longrightarrow>
      queryPDF env w req st = (respond 400 [(''error'', JStr ''Question is required'')], st))
   \<and> (truthy (qr_question req) \<and> \<not> truthy (qr_pdfId req) \<longrightarrow>
      queryPDF env w req st = (respond 400 [(''error'', JStr ''PDF ID is required'')], st))
   \<and> (truthy (qr_question req) \<and> truthy (qr_pdfId req) \<and> find_error w = None
       \<and> (\<forall>p \<in> set (pdfs st). JStr (pdf_id p) = qr_pdfId req \<longrightarrow> pdf_user p \<noteq> qr_user req) \<longrightarrow>
      queryPDF env w req st = (respond 404 [(''error'', JStr ''PDF not found or not authorized'')], st))
   \<and> (\<not> truthy (qr_question req) \<or> \<not> truthy (qr_pdfId req)
       \<or> (\<forall>p \<in> set (pdfs st). JStr (pdf_id p) = qr_pdfId req \<longrightarrow> pdf_user p \<noteq> qr_user req) \<longrightarrow>
      clients (snd (queryPDF env w req st)) = clients st
      \<and> sent (snd (queryPDF env w req st)) = sent st
      \<and> snd (queryPDF env w req st) = st)"
proof (intro conjI impI)
  assume "\<not> truthy (qr_question req)"
  then show "queryPDF env w req st = (respond 400 [(''error'', JStr ''Question is required'')], st)"
    by (rule queryPDF_no_question)
next
  assume "truthy (qr_question req) \<and> \<not> truthy (qr_pdfId req)"
  then show "queryPDF env w req st = (respond 400 [(''error'', JStr ''PDF ID is required'')], st)"
    by (simp add: queryPDF_no_pdfId)
next
  assume a: "truthy (qr_question req) \<and> truthy (qr_pdfId req) \<and> find_error w = None
       \<and> (\<forall>p \<in> set (pdfs st). JStr (pdf_id p) = qr_pdfId req \<longrightarrow> pdf_user p \<noteq> qr_user req)"
  then have "PDF_findOne (pdfs st) (qr_pdfId req) (qr_user req) = None"
    by (simp add: PDF_findOne_None)
  with a show "queryPDF env w req st = (respond 404 [(''error'', JStr ''PDF not found or not authorized'')], st)"
    by (simp add: queryPDF_not_found)
next
  assume b: "\<not> truthy (qr_question req) \<or> \<not> truthy (qr_pdfId req)
       \<or> (\<forall>p \<in> set (pdfs st). JStr (pdf_id p) = qr_pdfId req \<longrightarrow> pdf_user p \<noteq> qr_user req)"
  then have "\<not> truthy (qr_question req) \<or> \<not> truthy (qr_pdfId req)
     \<or> PDF_findOne (pdfs st) (qr_pdfId req) (qr_user req) = None"
    using PDF_findOne_None [of "pdfs st" "qr_pdfId req" "qr_user req"] by auto
  then have s: "snd (queryPDF env w req st) = st"
    by (rule queryPDF_invalid_state)
  show "clients (snd (queryPDF env w req st)) = clients st" by (simp add: s)
  show "sent (snd (queryPDF env w req st)) = sent st" by (simp add: s)
  show "snd (queryPDF env w req st) = st" by (rule s)
qed

theorem query_validation_fail_fast_witness:
  "\<not> truthy (qr_question ((sample_query ''alice'')\<lparr>qr_question := JStr []\<rparr>))
   \<and> queryPDF sample_env (sample_world (NoResponse ''unused'' None))
        ((sample_query ''alice'')\<lparr>qr_question := JStr []\<rparr>) sample_state
      = (\<lparr>rstatus = 400, rbody = JObj [(''error'', JStr ''Question is required'')]\<rparr>, sample_state)
   \<and> truthy (qr_question ((sample_query ''alice'')\<lparr>qr_pdfId := JUndefined\<rparr>))
   \<and> \<not> truthy (qr_pdfId ((sample_query ''alice'')\<lparr>qr_pdfId := JUndefined\<rparr>))
   \<and> queryPDF sample_env (sample_world (NoResponse ''unused'' None))
        ((sample_query ''alice'')\<lparr>qr_pdfId := JUndefined\<rparr>) sample_state
      = (\<lparr>rstatus = 400, rbody = JObj [(''error'', JStr ''PDF ID is required'')]\<rparr>, sample_state)
   \<and> truthy (qr_question (sample_query ''bob'')) \<and> truthy (qr_pdfId (sample_query ''bob''))
   \<and> find_error (sample_world (NoResponse ''unused'' None)) = None
   \<and> PDF_findOne (pdfs sample_state) (qr_pdfId (sample_query ''bob'')) (qr_user (sample_query ''bob'')) = None
   \<and> queryPDF sample_env (sample_world (NoResponse ''unused'' None)) (sample_query ''bob'') sample_state
      = (\<lparr>rstatus = 404, rbody = JObj [(''error'', JStr ''PDF not found or not authorized'')]\<rparr>, sample_state)
   \<and> clients (snd (queryPDF sample_env (sample_world (NoResponse ''unused'' None)) (sample_query ''bob'') sample_state)) = []
   \<and> sent (snd (queryPDF sample_env (sample_world (NoResponse ''unused'' None)) (sample_query ''bob'') sample_state)) = []"
  using query_validation_fail_fast [of "(sample_query ''alice'')\<lparr>qr_question := JStr []\<rparr>" sample_env
          "sample_world (NoResponse ''unused'' None)" sample_state]
    query_validation_fail_fast [of "(sample_query ''alice'')\<lparr>qr_pdfId := JUndefined\<rparr>" sample_env
          "sample_world (NoResponse ''unused'' None)" sample_state]
    query_validation_fail_fast [of "sample_query ''bob''" sample_env
          "sample_world (NoResponse ''unused'' None)" sample_state]
  by (simp add: sample_query_def sample_world_def sample_state_def init_state_def respond_def PDF_findOne_def)

text \<open>
  C7. For a valid submit question whose upstream response is an HTTP 200 with
  a falsy \<open>success\<close> or a falsy \<open>data\<close> field, the caller gets 500
  with the upstream message when the body has a truthy one, and
  \<open>Invalid response from AI server\<close> otherwise.
\<close>

theorem query_logical_failure:
  assumes "truthy (qr_question req)" and "truthy (qr_pdfId req)" and "find_error w = None"
    and "PDF_findOne (pdfs st) (qr_pdfId req) (qr_user req) = Some pdf"
    and "net w = HttpResponse r" and "resp_status r = 200"
    and "\<not> truthy (js_get (resp_data r) ''success'') \<or> \<not> truthy (js_get (resp_data r) ''data'')"
  shows "fst (queryPDF env w req st) =
           \<lparr>rstatus = 500,
            rbody = JObj [(''error'',
              if truthy (js_get (resp_data r) ''message'') then js_get (resp_data r) ''message''
              else JStr ''Invalid response from AI server'')]\<rparr>"
proof -
  from assms(6) have "settle (HttpResponse r) = Fulfilled r"
    by (simp add: settle_success_status)
  with assms(5) have "settle (net w) = Fulfilled r" by simp
  from queryPDF_fulfilled [OF assms(1-4) this assms(7)] show ?thesis
    by (simp add: respond_def js_or_def)
qed

theorem query_logical_failure_witness:
  "truthy (qr_question (sample_query ''alice'')) \<and> truthy (qr_pdfId (sample_query ''alice''))
   \<and> find_error (sample_world (HttpResponse \<lparr>resp_status = 200, resp_headers = [],
          resp_data = JObj [(''success'', JBool False), (''message'', JStr ''index not built'')]\<rparr>)) = None
   \<and> PDF_findOne (pdfs sample_state) (qr_pdfId (sample_query ''alice'')) (qr_user (sample_query ''alice'')) \<noteq> None
   \<and> \<not> truthy (js_get (JObj [(''success'', JBool False), (''message'', JStr ''index not built'')]) ''success'')
   \<and> fst (queryPDF sample_env (sample_world (HttpResponse \<lparr>resp_status = 200, resp_headers = [],
          resp_data = JObj [(''success'', JBool False), (''message'', JStr ''index not built'')]\<rparr>))
          (sample_query ''alice'') sample_state)
      = \<lparr>rstatus = 500, rbody = JObj [(''error'', JStr ''index not built'')]\<rparr>"
proof -
  let ?r = "\<lparr>resp_status = 200, resp_headers = [],
          resp_data = JObj [(''success'', JBool False), (''message'', JStr ''index not built'')]\<rparr>"
  have h1: "truthy (qr_question (sample_query ''alice''))" and h2: "truthy (qr_pdfId (sample_query ''alice''))"
    by (simp_all add: sample_query_def)
  have h3: "find_error (sample_world (HttpResponse ?r)) = None"
    and h5: "net (sample_world (HttpResponse ?r)) = HttpResponse ?r"
    by (simp_all add: sample_world_def)
  have h6: "resp_status ?r = 200" by simp
  have h7: "\<not> truthy (js_get (resp_data ?r) ''success'') \<or> \<not> truthy (js_get (resp_data ?r) ''data'')"
    by (simp add: js_get_def)
  from query_logical_failure [OF h1 h2 h3 sample_query_found h5 h6 h7, of sample_env]
    h1 h2 h3 sample_query_found
  show ?thesis by (simp add: js_get_def)
qed

lemma queryPDF_pdfs: "pdfs (snd (queryPDF env w req st)) = pdfs st"
  by (simp add: queryPDF_def Let_def aiAxios_post_pdfs getAiAxiosForUser_fields
        split: option.splits promise.splits)

lemma queryPDF_history_rejected:
  "settle (net w) = Rejected error \<Longrightarrow> queryHistory (snd (queryPDF env w req st)) = queryHistory st"
  by (simp add: queryPDF_def Let_def aiAxios_post_fst aiAxios_post_queryHistory getAiAxiosForUser_fields
        split: option.splits)

lemma queryPDF_history_malformed:
  "settle (net w) = Fulfilled r \<Longrightarrow>
   \<not> truthy (js_get (resp_data r) ''success'') \<or> \<not> truthy (js_get (resp_data r) ''data'') \<Longrightarrow>
   queryHistory (snd (queryPDF env w req st)) = queryHistory st"
  by (auto simp add: queryPDF_def Let_def aiAxios_post_fst aiAxios_post_queryHistory getAiAxiosForUser_fields
        split: option.splits)

lemma queryPDF_history_save_error:
  "save_error w = Some msg \<Longrightarrow> queryHistory (snd (queryPDF env w req st)) = queryHistory st"
  by (simp add: queryPDF_def Let_def aiAxios_post_fst aiAxios_post_queryHistory getAiAxiosForUser_fields
        split: option.splits promise.splits)

lemma queryPDF_history_success:
  "truthy (qr_question req) \<Longrightarrow> truthy (qr_pdfId req) \<Longrightarrow> find_error w = None \<Longrightarrow>
   PDF_findOne (pdfs st) (qr_pdfId req) (qr_user req) = Some pdf \<Longrightarrow>
   settle (net w) = Fulfilled r \<Longrightarrow>
   truthy (js_get (resp_data r) ''success'') \<Longrightarrow> truthy (js_get (resp_data r) ''data'') \<Longrightarrow>
   save_error w = None \<Longrightarrow>
   queryHistory (snd (queryPDF env w req st)) =
     queryHistory st @ [\<lparr>qh_question = qr_question req,
                          qh_answer = js_get (js_get (resp_data r) ''data'') ''answer'',
                          qh_user = qr_user req, qh_pdf = qr_pdfId req\<rparr>]"
proof -
  assume a: "truthy (qr_question req)" "truthy (qr_pdfId req)" "find_error w = None"
    "PDF_findOne (pdfs st) (qr_pdfId req) (qr_user req) = Some pdf"
    "settle (net w) = Fulfilled r"
    "truthy (js_get (resp_data r) ''success'')" "truthy (js_get (resp_data r) ''data'')"
    "save_error w = None"
  from a(6) have "truthy (resp_data r)"
    by (cases "resp_data r") (simp_all add: js_get_def)
  with a show ?thesis
    by (simp add: queryPDF_def Let_def aiAxios_post_fst aiAxios_post_queryHistory getAiAxiosForUser_fields)
qed

text \<open>
  C10. Submit question changes the query history only when the upstream
  response was accepted (200 to 299) with truthy \<open>success\<close> and
  \<open>data\<close>. On a validation failure, a transport failure, an upstream
  error status or a malformed envelope the query history is unchanged; the
  collection of documents is never changed. On the success path, when the
  record store accepts the save, exactly one record is appended.
\<close>

theorem history_only_on_success:
  "(queryHistory (snd (queryPDF env w req st)) \<noteq> queryHistory st \<longrightarrow>
      (\<exists>r. net w = HttpResponse r \<and> 200 \<le> resp_status r \<and> resp_status r < 300
           \<and> truthy (js_get (resp_data r) ''success'') \<and> truthy (js_get (resp_data r) ''data'')))
   \<and> (\<not> truthy (qr_question req) \<or> \<not> truthy (qr_pdfId req)
       \<or> PDF_findOne (pdfs st) (qr_pdfId req) (qr_user req) = None
       \<or> (\<exists>msg code. net w = NoResponse msg code)
       \<or> (\<exists>r. net w = HttpResponse r \<and> \<not> (200 \<le> resp_status r \<and> resp_status r < 300))
       \<or> (\<exists>r. net w = HttpResponse r
              \<and> (\<not> truthy (js_get (resp_data r) ''success'') \<or> \<not> truthy (js_get (resp_data r) ''data'')))
      \<longrightarrow> queryHistory (snd (queryPDF env w req st)) = queryHistory st)
   \<and> pdfs (snd (queryPDF env w req st)) = pdfs st
   \<and> (truthy (qr_question req) \<and> truthy (qr_pdfId req) \<and> find_error w = None
       \<and> PDF_findOne (pdfs st) (qr_pdfId req) (qr_user req) = Some pdf
       \<and> net w = HttpResponse r \<and> 200 \<le> resp_status r \<and> resp_status r < 300
       \<and> truthy (js_get (resp_data r) ''success'') \<and> truthy (js_get (resp_data r) ''data'')
       \<and> save_error w = None
      \<longrightarrow> queryHistory (snd (queryPDF env w req st)) =
            queryHistory st @ [\<lparr>qh_question = qr_question req,
                                 qh_answer = js_get (js_get (resp_data r) ''data'') ''answer'',
                                 qh_user = qr_user req, qh_pdf = qr_pdfId req\<rparr>])"
proof -
  have unchanged_net:
    "queryHistory (snd (queryPDF env w req st)) = queryHistory st"
    if "\<not> (\<exists>r. net w = HttpResponse r \<and> 200 \<le> resp_status r \<and> resp_status r < 300
           \<and> truthy (js_get (resp_data r) ''success'') \<and> truthy (js_get (resp_data r) ''data''))"
  proof (cases "settle (net w)")
    case (Rejected error)
    then show ?thesis by (rule queryPDF_history_rejected)
  next
    case (Fulfilled r)
    then have "net w = HttpResponse r \<and> 200 \<le> resp_status r \<and> resp_status r < 300"
      by (simp add: settle_Fulfilled_iff)
    with that have "\<not> truthy (js_get (resp_data r) ''success'') \<or> \<not> truthy (js_get (resp_data r) ''data'')"
      by blast
    with Fulfilled show ?thesis by (rule queryPDF_history_malformed)
  qed
  have part1: "queryHistory (snd (queryPDF env w req st)) \<noteq> queryHistory st \<longrightarrow>
      (\<exists>r. net w = HttpResponse r \<and> 200 \<le> resp_status r \<and> resp_status r < 300
           \<and> truthy (js_get (resp_data r) ''success'') \<and> truthy (js_get (resp_data r) ''data''))"
    using unchanged_net by blast
  have invalid: "queryHistory (snd (queryPDF env w req st)) = queryHistory st"
    if "\<not> truthy (qr_question req) \<or> \<not> truthy (qr_pdfId req)
       \<or> PDF_findOne (pdfs st) (qr_pdfId req) (qr_user req) = None"
    using queryPDF_invalid_state [OF that] by simp
  have part2: "\<not> truthy (qr_question req) \<or> \<not> truthy (qr_pdfId req)
       \<or> PDF_findOne (pdfs st) (qr_pdfId req) (qr_user req) = None
       \<or> (\<exists>msg code. net w = NoResponse msg code)
       \<or> (\<exists>r. net w = HttpResponse r \<and> \<not> (200 \<le> resp_status r \<and> resp_status r < 300))
       \<or> (\<exists>r. net w = HttpResponse r
              \<and> (\<not> truthy (js_get (resp_data r) ''success'') \<or> \<not> truthy (js_get (resp_data r) ''data'')))
      \<longrightarrow> queryHistory (snd (queryPDF env w req st)) = queryHistory st"
  proof
    assume "\<not> truthy (qr_question req) \<or> \<not> truthy (qr_pdfId req)
       \<or> PDF_findOne (pdfs st) (qr_pdfId req) (qr_user req) = None
       \<or> (\<exists>msg code. net w = NoResponse msg code)
       \<or> (\<exists>r. net w = HttpResponse r \<and> \<not> (200 \<le> resp_status r \<and> resp_status r < 300))
       \<or> (\<exists>r. net w = HttpResponse r
              \<and> (\<not> truthy (js_get (resp_data r) ''success'') \<or> \<not> truthy (js_get (resp_data r) ''data'')))"
    then consider
        (validation) "\<not> truthy (qr_question req) \<or> \<not> truthy (qr_pdfId req)
           \<or> PDF_findOne (pdfs st) (qr_pdfId req) (qr_user req) = None"
      | (upstream) "\<not> (\<exists>r. net w = HttpResponse r \<and> 200 \<le> resp_status r \<and> resp_status r < 300
           \<and> truthy (js_get (resp_data r) ''success'') \<and> truthy (js_get (resp_data r) ''data''))"
      by auto
    then show "queryHistory (snd (queryPDF env w req st)) = queryHistory st"
    proof cases
      case validation
      then show ?thesis by (rule invalid)
    next
      case upstream
      then show ?thesis by (rule unchanged_net)
    qed
  qed
  have part4: "truthy (qr_question req) \<and> truthy (qr_pdfId req) \<and> find_error w = None
       \<and> PDF_findOne (pdfs st) (qr_pdfId req) (qr_user req) = Some pdf
       \<and> net w = HttpResponse r \<and> 200 \<le> resp_status r \<and> resp_status r < 300
       \<and> truthy (js_get (resp_data r) ''success'') \<and> truthy (js_get (resp_data r) ''data'')
       \<and> save_error w = None
      \<longrightarrow> queryHistory (snd (queryPDF env w req st)) =
            queryHistory st @ [\<lparr>qh_question = qr_question req,
                                 qh_answer = js_get (js_get (resp_data r) ''data'') ''answer'',
                                 qh_user = qr_user req, qh_pdf = qr_pdfId req\<rparr>]"
    by (auto intro!: queryPDF_history_success simp: settle_Fulfilled_iff)
  from part1 part2 queryPDF_pdfs part4 show ?thesis by blast
qed

theorem history_only_on_success_witness:
  "truthy (qr_question (sample_query ''alice'')) \<and> truthy (qr_pdfId (sample_query ''alice''))
   \<and> find_error (sample_world (HttpResponse answer_response)) = None
   \<and> PDF_findOne (pdfs sample_state) (qr_pdfId (sample_query ''alice'')) (qr_user (sample_query ''alice'')) \<noteq> None
   \<and> net (sample_world (HttpResponse answer_response)) = HttpResponse answer_response
   \<and> 200 \<le> resp_status answer_response \<and> resp_status answer_response < 300
   \<and> truthy (js_get (resp_data answer_response) ''success'')
   \<and> truthy (js_get (resp_data answer_response) ''data'')
   \<and> save_error (sample_world (HttpResponse answer_response)) = None
   \<and> queryHistory (snd (queryPDF sample_env (sample_world (HttpResponse answer_response))
         (sample_query ''alice'') sample_state))
      = [\<lparr>qh_question = JStr ''What is the total?'', qh_answer = JStr ''42'',
          qh_user = ''alice'', qh_pdf = JStr ''65f0c0ffee0000000000b001''\<rparr>]
   \<and> queryHistory sample_state = []
   \<and> net (sample_world (NoResponse ''timeout of 60000ms exceeded'' (Some ''ECONNABORTED'')))
      = NoResponse ''timeout of 60000ms exceeded'' (Some ''ECONNABORTED'')
   \<and> queryHistory (snd (queryPDF sample_env
         (sample_world (NoResponse ''timeout of 60000ms exceeded'' (Some ''ECONNABORTED'')))
         (sample_query ''alice'') sample_state)) = []
   \<and> pdfs (snd (queryPDF sample_env (sample_world (HttpResponse answer_response))
         (sample_query ''alice'') sample_state)) = pdfs sample_state"
proof -
  have q: "truthy (qr_question (sample_query ''alice''))" "truthy (qr_pdfId (sample_query ''alice''))"
    "qr_question (sample_query ''alice'') = JStr ''What is the total?''"
    "qr_pdfId (sample_query ''alice'') = JStr ''65f0c0ffee0000000000b001''"
    "qr_user (sample_query ''alice'') = ''alice''"
    by (simp_all add: sample_query_def)
  have w: "find_error (sample_world (HttpResponse answer_response)) = None"
    "save_error (sample_world (HttpResponse answer_response)) = None"
    "\<And>n. net (sample_world n) = n"
    by (simp_all add: sample_world_def)
  have r: "200 \<le> resp_status answer_response" "resp_status answer_response < 300"
    "truthy (js_get (resp_data answer_response) ''success'')"
    "truthy (js_get (resp_data answer_response) ''data'')"
    "js_get (js_get (resp_data answer_response) ''data'') ''answer'' = JStr ''42''"
    by (simp_all add: answer_response_def js_get_def)
  have s: "queryHistory sample_state = []"
    by (simp add: sample_state_def init_state_def)
  from history_only_on_success [of sample_env "sample_world (HttpResponse answer_response)"
      "sample_query ''alice''" sample_state _ answer_response]
    history_only_on_success [of sample_env
      "sample_world (NoResponse ''timeout of 60000ms exceeded'' (Some ''ECONNABORTED''))"
      "sample_query ''alice''" sample_state]
    sample_query_found
  show ?thesis
    by (simp add: q w r s)
qed

section \<open>The upstream address\<close>

lemma js_includes_iff: "js_includes s sub \<longleftrightarrow> (\<exists>p q. s = p @ sub @ q)"
proof (induction s)
  case Nil
  then show ?case by auto
next
  case (Cons c cs)
  show ?case
  proof
    assume "js_includes (c # cs) sub"
    then consider "prefix sub (c # cs)" | "js_includes cs sub" by auto
    then show "\<exists>p q. c # cs = p @ sub @ q"
    proof cases
      case 1
      then obtain q where "c # cs = sub @ q" by (auto simp: prefix_def)
      then have "c # cs = [] @ sub @ q" by simp
      then show ?thesis by blast
    next
      case 2
      with Cons.IH obtain p q where "cs = p @ sub @ q" by blast
      then have "c # cs = (c # p) @ sub @ q" by simp
      then show ?thesis by blast
    qed
  next
    assume "\<exists>p q. c # cs = p @ sub @ q"
    then obtain p q where pq: "c # cs = p @ sub @ q" by blast
    show "js_includes (c # cs) sub"
    proof (cases p)
      case Nil
      with pq have "prefix sub (c # cs)" by (simp add: prefix_def)
      then show ?thesis by simp
    next
      case (Cons a p')
      with pq have "cs = p' @ sub @ q" by simp
      with Cons.IH have "js_includes cs sub" by blast
      then show ?thesis by simp
    qed
  qed
qed

lemma prefix_within:
  assumes "prefix p (x @ y)" and "length p \<le> length x"
  shows "prefix p x"
  using assms by (auto simp: prefix_append)

lemma js_replace_first:
  assumes "pat \<noteq> []" and "\<not> (\<exists>p q. pre @ butlast pat = p @ pat @ q)"
  shows "js_replace (pre @ pat @ post) pat rep = pre @ rep @ post"
  using assms(2)
proof (induction pre)
  case Nil
  from assms(1) obtain a as where pat: "pat = a # as" by (cases pat) auto
  then show ?case by simp
next
  case (Cons c pre)
  have no_prefix: "\<not> prefix pat (c # pre @ pat @ post)"
  proof
    assume pf: "prefix pat (c # pre @ pat @ post)"
    from assms(1) have split: "pat = butlast pat @ [last pat]" by simp
    have "c # pre @ pat @ post = ((c # pre) @ butlast pat) @ ([last pat] @ post)"
      using split by (metis append.assoc append_Cons)
    with pf have "prefix pat (((c # pre) @ butlast pat) @ ([last pat] @ post))" by simp
    moreover have "length pat \<le> length ((c # pre) @ butlast pat)"
      using assms(1) by (cases pat) auto
    ultimately have "prefix pat ((c # pre) @ butlast pat)" by (rule prefix_within)
    then obtain q where "(c # pre) @ butlast pat = [] @ pat @ q" by (auto simp: prefix_def)
    with Cons.prems show False by blast
  qed
  have "\<not> (\<exists>p q. pre @ butlast pat = p @ pat @ q)"
  proof
    assume "\<exists>p q. pre @ butlast pat = p @ pat @ q"
    then obtain p q where "pre @ butlast pat = p @ pat @ q" by blast
    then have "(c # pre) @ butlast pat = (c # p) @ pat @ q" by simp
    with Cons.prems show False by blast
  qed
  then have "js_replace (pre @ pat @ post) pat rep = pre @ rep @ post" by (rule Cons.IH)
  with no_prefix show ?case by simp
qed

lemma AI_SERVER_URL_unset:
  "env_AI_SERVER_URL env = None \<or> env_AI_SERVER_URL env = Some [] \<Longrightarrow>
   AI_SERVER_URL env = ''http://127.0.0.1:5000''"
  by (auto simp: AI_SERVER_URL_def env_or_def)

lemma AI_SERVER_URL_other:
  assumes "env_AI_SERVER_URL env = Some u" and "u \<noteq> []"
    and "\<not> (\<exists>p q. u = p @ ''localhost:5000'' @ q)"
  shows "AI_SERVER_URL env = u"
proof -
  from assms(3) have "\<not> js_includes u ''localhost:5000''" by (simp only: js_includes_iff not_False_eq_True)
  with assms(1,2) show ?thesis by (simp add: AI_SERVER_URL_def env_or_def)
qed

lemma AI_SERVER_URL_localhost:
  assumes "env_AI_SERVER_URL env = Some (pre @ ''localhost'' @ post)"
    and "\<exists>p q. pre @ ''localhost'' @ post = p @ ''localhost:5000'' @ q"
    and "\<not> (\<exists>p q. pre @ ''localhos'' = p @ ''localhost'' @ q)"
  shows "AI_SERVER_URL env = pre @ ''127.0.0.1'' @ post"
proof -
  from assms(2) have inc: "js_includes (pre @ ''localhost'' @ post) ''localhost:5000''"
    by (simp only: js_includes_iff)
  have "butlast ''localhost'' = ''localhos''" by simp
  with assms(3) have "\<not> (\<exists>p q. pre @ butlast ''localhost'' = p @ ''localhost'' @ q)" by simp
  then have "js_replace (pre @ ''localhost'' @ post) ''localhost'' ''127.0.0.1'' = pre @ ''127.0.0.1'' @ post"
    by (intro js_replace_first) simp_all
  moreover have "pre @ ''localhost'' @ post \<noteq> []" by simp
  ultimately show ?thesis
    using assms(1) inc by (simp only: AI_SERVER_URL_def env_or_def Let_def option.case if_True if_False)
qed

lemma request_interceptor_baseURL:
  "req_baseURL (request_interceptor u store config) = req_baseURL config"
  by (simp add: request_interceptor_def split: option.splits)

lemma uploadPDF_sent:
  "sent (snd (uploadPDF env w req st)) = sent st
   \<or> (\<exists>c. sent (snd (uploadPDF env w req st)) = sent st @ [(ur_user req, c)]
          \<and> req_baseURL c = AI_SERVER_URL env)"
  by (simp add: uploadPDF_def Let_def aiAxios_post_sent getAiAxiosForUser_def
        request_interceptor_baseURL aiAxios_defaults_def split: option.splits promise.splits)

lemma queryPDF_sent:
  "sent (snd (queryPDF env w req st)) = sent st
   \<or> (\<exists>c. sent (snd (queryPDF env w req st)) = sent st @ [(qr_user req, c)]
          \<and> req_baseURL c = AI_SERVER_URL env)"
  by (simp add: queryPDF_def Let_def aiAxios_post_sent getAiAxiosForUser_def
        request_interceptor_baseURL aiAxios_defaults_def split: option.splits promise.splits)

lemma clearVectorData_sent:
  "\<exists>c. sent (snd (clearVectorData env w user st)) = sent st @ [(user, c)]
          \<and> req_baseURL c = AI_SERVER_URL env"
  by (simp add: clearVectorData_def Let_def aiAxios_post_sent getAiAxiosForUser_def
        request_interceptor_baseURL aiAxios_defaults_def split: option.splits promise.splits)

text \<open>
  C9. With the variable unset or empty the address is the default
  \<open>http://127.0.0.1:5000\<close>. A configured address with no occurrence of
  \<open>localhost:5000\<close> is used unchanged. A configured address that contains
  \<open>localhost:5000\<close> is used with its first occurrence of \<open>localhost\<close>
  replaced by \<open>127.0.0.1\<close>. Every request a handler transmits has this
  address as its base address.
\<close>

theorem upstream_address:
  "(env_AI_SERVER_URL env = None \<or> env_AI_SERVER_URL env = Some [] \<longrightarrow>
      AI_SERVER_URL env = ''http://127.0.0.1:5000'')
   \<and> (env_AI_SERVER_URL env = Some u \<and> u \<noteq> [] \<and> \<not> (\<exists>p q. u = p @ ''localhost:5000'' @ q) \<longrightarrow>
      AI_SERVER_URL env = u)
   \<and> (env_AI_SERVER_URL env = Some (pre @ ''localhost'' @ post)
       \<and> (\<exists>p q. pre @ ''localhost'' @ post = p @ ''localhost:5000'' @ q)
       \<and> \<not> (\<exists>p q. pre @ ''localhos'' = p @ ''localhost'' @ q) \<longrightarrow>
      AI_SERVER_URL env = pre @ ''127.0.0.1'' @ post)
   \<and> (sent (snd (uploadPDF env w ureq st)) = sent st
       \<or> (\<exists>c. sent (snd (uploadPDF env w ureq st)) = sent st @ [(ur_user ureq, c)]
              \<and> req_baseURL c = AI_SERVER_URL env))
   \<and> (sent (snd (queryPDF env w qreq st)) = sent st
       \<or> (\<exists>c. sent (snd (queryPDF env w qreq st)) = sent st @ [(qr_user qreq, c)]
              \<and> req_baseURL c = AI_SERVER_URL env))
   \<and> (\<exists>c. sent (snd (clearVectorData env w user st)) = sent st @ [(user, c)]
              \<and> req_baseURL c = AI_SERVER_URL env)"
  using AI_SERVER_URL_unset [of env] AI_SERVER_URL_other [of env u]
    AI_SERVER_URL_localhost [of env pre post]
    uploadPDF_sent [of env w ureq st] queryPDF_sent [of env w qreq st]
    clearVectorData_sent [of env w user st]
  by blast

theorem upstream_address_witness:
  "AI_SERVER_URL (sample_env\<lparr>env_AI_SERVER_URL := None\<rparr>) = ''http://127.0.0.1:5000''
   \<and> ''http://ai.internal:8000'' \<noteq> [] \<and> \<not> js_includes ''http://ai.internal:8000'' ''localhost:5000''
   \<and> AI_SERVER_URL (sample_env\<lparr>env_AI_SERVER_URL := Some ''http://ai.internal:8000''\<rparr>) = ''http://ai.internal:8000''
   \<and> js_includes (''http://'' @ ''localhost'' @ '':5000/api'') ''localhost:5000''
   \<and> \<not> js_includes (''http://'' @ ''localhos'') ''localhost''
   \<and> AI_SERVER_URL (sample_env\<lparr>env_AI_SERVER_URL := Some ''http://localhost:5000/api''\<rparr>) = ''http://127.0.0.1:5000/api''"
proof -
  have a: "\<not> (\<exists>p q. ''http://ai.internal:8000'' = p @ ''localhost:5000'' @ q)"
    unfolding js_includes_iff [symmetric] by simp
  have b: "\<exists>p q. ''http://'' @ ''localhost'' @ '':5000/api'' = p @ ''localhost:5000'' @ q"
    unfolding js_includes_iff [symmetric] by simp
  have c: "\<not> (\<exists>p q. ''http://'' @ ''localhos'' = p @ ''localhost'' @ q)"
    unfolding js_includes_iff [symmetric] by simp
  have e: "env_AI_SERVER_URL (sample_env\<lparr>env_AI_SERVER_URL := Some ''http://localhost:5000/api''\<rparr>)
        = Some (''http://'' @ ''localhost'' @ '':5000/api'')" by simp
  from upstream_address [of "sample_env\<lparr>env_AI_SERVER_URL := None\<rparr>"]
    upstream_address [of "sample_env\<lparr>env_AI_SERVER_URL := Some ''http://ai.internal:8000''\<rparr>"
       "''http://ai.internal:8000''"]
    upstream_address [of "sample_env\<lparr>env_AI_SERVER_URL := Some ''http://localhost:5000/api''\<rparr>"
       _ "''http://''" "'':5000/api''"]
    a b c e
  show ?thesis by simp
qed

section \<open>Mail without credentials\<close>

lemma mailSender_catch_plain:
  "mailSender_catch (plain_error msg) = plain_error (''Failed to send email: '' @ msg)"
  by (simp add: mailSender_catch_def plain_error_def)

lemma createTransporter_missing:
  "env_falsy (env_NODEMAILER_USER env) \<or> env_falsy (env_NODEMAILER_PASS env) \<Longrightarrow>
   createTransporter env =
     Inl (plain_error ''Email configuration missing: NODEMAILER_USER and NODEMAILER_PASS must be set'')"
  by (auto simp: createTransporter_def)

lemma mailSender_try_missing:
  "env_falsy (env_NODEMAILER_USER env) \<or> env_falsy (env_NODEMAILER_PASS env) \<Longrightarrow>
   mailSender_try env smtp email subject body =
     (Inl (plain_error
        (if \<not> truthy email \<or> (case email of JStr e \<Rightarrow> \<not> js_includes e ''@'' | _ \<Rightarrow> True)
         then ''Invalid email address''
         else ''Email configuration missing: NODEMAILER_USER and NODEMAILER_PASS must be set'')),
      [], False)"
  by (simp add: mailSender_try_def createTransporter_missing)

lemma env_falsy_iff: "env_falsy v \<longleftrightarrow> v = None \<or> v = Some []"
  by (simp add: env_falsy_def split: option.splits)

lemma otp_pre_save_Next: "fst (otp_pre_save env smtp isNew doc) = Next"
  by (simp add: otp_pre_save_def Let_def split: sum.splits)

lemma otp_pre_save_missing:
  "env_falsy (env_NODEMAILER_USER env) \<or> env_falsy (env_NODEMAILER_PASS env) \<Longrightarrow>
   otp_pre_save env smtp isNew doc = (Next, [])"
  by (auto simp: otp_pre_save_def)

text \<open>The test by derivatives decides membership in the language of the
  expression.\<close>

lemma lang_rx_alt: "lang (rx_alt r s) = lang r \<union> lang s"
  by (auto simp: rx_alt_def)

lemma lang_rx_seq: "lang (rx_seq r s) = conc (lang r) (lang s)"
  by (auto simp: rx_seq_def conc_def)

lemma nullable_lang: "nullable r \<longleftrightarrow> [] \<in> lang r"
  by (induction r) (auto simp: conc_def intro: star.star_empty)

lemma star_tail:
  assumes "x \<in> star A" and "x = c # w"
  shows "\<exists>u v. w = u @ v \<and> c # u \<in> A \<and> v \<in> star A"
  using assms
proof (induction x rule: star.induct)
  case star_empty
  then show ?case by simp
next
  case (star_step u v)
  show ?case
  proof (cases u)
    case Nil
    with star_step show ?thesis by simp
  next
    case (Cons a u')
    with star_step.prems have "a = c" and "w = u' @ v" by simp_all
    with Cons star_step.hyps show ?thesis by blast
  qed
qed

lemma left_quotient_star:
  "{w. c # w \<in> star A} = conc {w. c # w \<in> A} (star A)"
proof
  show "{w. c # w \<in> star A} \<subseteq> conc {w. c # w \<in> A} (star A)"
    using star_tail by (fastforce simp: conc_def)
  show "conc {w. c # w \<in> A} (star A) \<subseteq> {w. c # w \<in> star A}"
  proof
    fix x assume "x \<in> conc {w. c # w \<in> A} (star A)"
    then obtain u v where "x = u @ v" "c # u \<in> A" "v \<in> star A"
      by (auto simp: conc_def)
    then have "(c # u) @ v \<in> star A" by (intro star.star_step)
    with \<open>x = u @ v\<close> show "x \<in> {w. c # w \<in> star A}" by simp
  qed
qed

lemma left_quotient_conc:
  "{w. c # w \<in> conc A B} =
     conc {w. c # w \<in> A} B \<union> (if [] \<in> A then {w. c # w \<in> B} else {})"
proof -
  have "c # w \<in> conc A B \<longleftrightarrow>
        (\<exists>u v. w = u @ v \<and> c # u \<in> A \<and> v \<in> B) \<or> ([] \<in> A \<and> c # w \<in> B)" for w
  proof
    assume "c # w \<in> conc A B"
    then obtain u v where uv: "c # w = u @ v" "u \<in> A" "v \<in> B" by (auto simp: conc_def)
    show "(\<exists>u v. w = u @ v \<and> c # u \<in> A \<and> v \<in> B) \<or> ([] \<in> A \<and> c # w \<in> B)"
    proof (cases u)
      case Nil
      with uv show ?thesis by simp
    next
      case (Cons a u')
      with uv have "a = c" "w = u' @ v" by simp_all
      with Cons uv show ?thesis by blast
    qed
  next
    assume "(\<exists>u v. w = u @ v \<and> c # u \<in> A \<and> v \<in> B) \<or> ([] \<in> A \<and> c # w \<in> B)"
    then show "c # w \<in> conc A B"
    proof
      assume "\<exists>u v. w = u @ v \<and> c # u \<in> A \<and> v \<in> B"
      then obtain u v where "w = u @ v" "c # u \<in> A" "v \<in> B" by blast
      then have "c # w = (c # u) @ v" by simp
      with \<open>c # u \<in> A\<close> \<open>v \<in> B\<close> show ?thesis unfolding conc_def by blast
    next
      assume "[] \<in> A \<and> c # w \<in> B"
      then have "c # w = [] @ (c # w)" "[] \<in> A" "c # w \<in> B" by simp_all
      then show ?thesis unfolding conc_def by blast
    qed
  qed
  then show ?thesis by (auto simp: conc_def)
qed

lemma lang_deriv: "lang (deriv c r) = {w. c # w \<in> lang r}"
proof (induction r)
  case (RSeq r s)
  then show ?case
    by (auto simp: lang_rx_alt lang_rx_seq left_quotient_conc nullable_lang)
next
  case (RStar r)
  then show ?case
    by (simp add: lang_rx_seq left_quotient_star)
qed (auto simp: lang_rx_alt)

lemma rx_test_lang: "rx_test r s \<longleftrightarrow> s \<in> lang r"
  by (induction s arbitrary: r) (simp_all add: nullable_lang lang_deriv)

lemma otp_validate_rejects:
  "otp_validate \<lparr>otp_email = ''carol@example.museum'', otp_otp = ''4938''\<rparr>
     = [(''email'', ''Invalid email''), (''otp'', ''OTP must be 6 characters long'')]"
proof -
  have "\<not> rx_test email_pattern ''carol@example.museum''" by code_simp
  then show ?thesis by (simp add: otp_validate_def)
qed

text \<open>Whether a one-time-code record is created does not depend on the mail
  configuration or on the mail server: the hook never hands back an error.\<close>

lemma OTP_create_outcome:
  "fst (OTP_create env smtp store_error doc otps) =
     (if otp_validate doc \<noteq> [] then Inl (ValidationError (otp_validate doc))
      else case store_error of
             Some msg \<Rightarrow> Inl (StoreError msg)
           | None \<Rightarrow> if otp_email doc \<in> set (map otp_email otps)
                     then Inl (DuplicateKey (otp_email doc))
                     else Inr (otps @ [doc]))"
proof -
  obtain evs where "otp_pre_save env smtp True doc = (Next, evs)"
    using otp_pre_save_Next [of env smtp True doc] by (cases "otp_pre_save env smtp True doc") simp
  then show ?thesis
    by (simp add: OTP_create_def split: option.splits)
qed

lemma OTP_create_events_missing:
  "env_falsy (env_NODEMAILER_USER env) \<or> env_falsy (env_NODEMAILER_PASS env) \<Longrightarrow>
   snd (OTP_create env smtp store_error doc otps) = []"
  by (simp add: OTP_create_def otp_pre_save_missing split: option.splits)

text \<open>Loading the controller module raises nothing, whatever the
  environment holds: the value tested and rewritten is always a string.\<close>

lemma pdfController_load_ok: "pdfController_load env = Inr (JStr (AI_SERVER_URL env))"
  by (simp add: pdfController_load_def AI_SERVER_URL_def js_env_def js_or_def env_or_def
        call_includes_def call_replace_def Let_def split: option.splits)

text \<open>
  C8. With \<open>NODEMAILER_USER\<close> or \<open>NODEMAILER_PASS\<close> unset or empty,
  \<open>mailSender\<close> raises an error (the rejection of its promise, which its
  caller can catch) and asks nothing of the mail library: no transport, no
  verification, no send. The hook of the one-time-code schema hands back
  \<open>next()\<close> without sending, so creating a record sends no mail, and a
  document that passes the schema's validators, with an address the collection
  does not hold yet and a store that accepts the insertion, is created.
  Nothing here ends the process, whatever is configured (\<open>env'\<close> is any
  environment): the outcome of a creation is the same under any mail
  configuration, the hook never hands back an error, and loading the
  controller module raises nothing.
\<close>

theorem missing_mail_credentials:
  assumes "env_NODEMAILER_USER env = None \<or> env_NODEMAILER_USER env = Some []
           \<or> env_NODEMAILER_PASS env = None \<or> env_NODEMAILER_PASS env = Some []"
  shows "mailSender env smtp email subject body =
           (Inl (plain_error (''Failed to send email: '' @
              (if \<not> truthy email \<or> (case email of JStr e \<Rightarrow> \<not> js_includes e ''@'' | _ \<Rightarrow> True)
               then ''Invalid email address''
               else ''Email configuration missing: NODEMAILER_USER and NODEMAILER_PASS must be set''))),
            [])
       \<and> otp_pre_save env smtp isNew doc = (Next, [])
       \<and> snd (OTP_create env smtp store_error doc otps) = []
       \<and> (otp_validate doc = [] \<and> store_error = None \<and> otp_email doc \<notin> set (map otp_email otps) \<longrightarrow>
            OTP_create env smtp store_error doc otps = (Inr (otps @ [doc]), []))
       \<and> fst (OTP_create env smtp store_error doc otps) = fst (OTP_create env' smtp' store_error doc otps)
       \<and> fst (otp_pre_save env' smtp' isNew doc) = Next
       \<and> pdfController_load env' = Inr (JStr (AI_SERVER_URL env'))"
proof -
  from assms have f: "env_falsy (env_NODEMAILER_USER env) \<or> env_falsy (env_NODEMAILER_PASS env)"
    by (simp add: env_falsy_iff)
  have m: "mailSender env smtp email subject body =
           (Inl (plain_error (''Failed to send email: '' @
              (if \<not> truthy email \<or> (case email of JStr e \<Rightarrow> \<not> js_includes e ''@'' | _ \<Rightarrow> True)
               then ''Invalid email address''
               else ''Email configuration missing: NODEMAILER_USER and NODEMAILER_PASS must be set''))),
            [])"
    by (simp add: mailSender_def mailSender_try_missing [OF f] mailSender_catch_plain)
  from f have h: "otp_pre_save env smtp isNew doc = (Next, [])"
    by (rule otp_pre_save_missing)
  from f have e: "snd (OTP_create env smtp store_error doc otps) = []"
    by (rule OTP_create_events_missing)
  have c: "otp_validate doc = [] \<and> store_error = None \<and> otp_email doc \<notin> set (map otp_email otps) \<longrightarrow>
            OTP_create env smtp store_error doc otps = (Inr (otps @ [doc]), [])"
  proof
    assume a: "otp_validate doc = [] \<and> store_error = None \<and> otp_email doc \<notin> set (map otp_email otps)"
    then have "fst (OTP_create env smtp store_error doc otps) = Inr (otps @ [doc])"
      by (simp add: OTP_create_outcome)
    with e show "OTP_create env smtp store_error doc otps = (Inr (otps @ [doc]), [])"
      by (simp add: prod_eq_iff)
  qed
  have i: "fst (OTP_create env smtp store_error doc otps) = fst (OTP_create env' smtp' store_error doc otps)"
    by (simp only: OTP_create_outcome)
  from m h e c i otp_pre_save_Next [of env' smtp' isNew doc] pdfController_load_ok [of env']
  show ?thesis by blast
qed

theorem missing_mail_credentials_witness:
  "env_NODEMAILER_USER sample_env = None
   \<and> mailSender sample_env \<lparr>verify_result = None, send_result = Inr ''<msg-1@smtp>''\<rparr>
        (JStr ''carol@example.org'') ''Hello'' ''<p>Hi</p>''
      = (Inl (plain_error ''Failed to send email: Email configuration missing: NODEMAILER_USER and NODEMAILER_PASS must be set''), [])
   \<and> otp_validate \<lparr>otp_email = ''carol@example.org'', otp_otp = ''493817''\<rparr> = []
   \<and> ''carol@example.org'' \<notin> set (map otp_email [\<lparr>otp_email = ''dave@example.org'', otp_otp = ''120034''\<rparr>])
   \<and> OTP_create sample_env \<lparr>verify_result = None, send_result = Inr ''<msg-1@smtp>''\<rparr> None
        \<lparr>otp_email = ''carol@example.org'', otp_otp = ''493817''\<rparr>
        [\<lparr>otp_email = ''dave@example.org'', otp_otp = ''120034''\<rparr>]
      = (Inr [\<lparr>otp_email = ''dave@example.org'', otp_otp = ''120034''\<rparr>,
              \<lparr>otp_email = ''carol@example.org'', otp_otp = ''493817''\<rparr>], [])
   \<and> pdfController_load sample_env = Inr (JStr ''http://127.0.0.1:5000'')"
proof -
  have h: "env_NODEMAILER_USER sample_env = None" by (simp add: sample_env_def)
  then have a: "env_NODEMAILER_USER sample_env = None \<or> env_NODEMAILER_USER sample_env = Some []
           \<or> env_NODEMAILER_PASS sample_env = None \<or> env_NODEMAILER_PASS sample_env = Some []" ..
  have r: "rx_test email_pattern ''carol@example.org''" by code_simp
  then have v: "otp_validate \<lparr>otp_email = ''carol@example.org'', otp_otp = ''493817''\<rparr> = []"
    by (simp add: otp_validate_def)
  have d: "''carol@example.org'' \<notin> set (map otp_email [\<lparr>otp_email = ''dave@example.org'', otp_otp = ''120034''\<rparr>])"
    by simp
  have u: "AI_SERVER_URL sample_env = ''http://127.0.0.1:5000''"
    by (simp add: AI_SERVER_URL_unset sample_env_def)
  from missing_mail_credentials [OF a,
      of "\<lparr>verify_result = None, send_result = Inr ''<msg-1@smtp>''\<rparr>" "JStr ''carol@example.org''"
         "''Hello''" "''<p>Hi</p>''" _ "\<lparr>otp_email = ''carol@example.org'', otp_otp = ''493817''\<rparr>" None
         "[\<lparr>otp_email = ''dave@example.org'', otp_otp = ''120034''\<rparr>]" sample_env]
    h v d u
  show ?thesis by simp
qed

end
